theory Spec2Isabelle
  imports Main "HOL-Library.Word"
begin

section \<open>Python strings\<close>

text \<open>
  A Python \<open>str\<close> is modelled as a HOL \<open>string\<close>: a list of characters whose code
  points lie below 256. The methods of \<open>str\<close> that the converter calls are written out
  for that range; \<open>bytes\<close> values are lists of 8-bit characters as well.
\<close>

type_synonym bytes = string

definition is_upper :: "char \<Rightarrow> bool" where
  "is_upper c =
     (let n = (of_char c :: nat)
      in (65 \<le> n \<and> n \<le> 90) \<or> (192 \<le> n \<and> n \<le> 222 \<and> n \<noteq> 215))"

definition lower_char :: "char \<Rightarrow> char" where
  "lower_char c = (if is_upper c then char_of ((of_char c :: nat) + 32) else c)"

text \<open>\<open>str.lower()\<close>\<close>

definition lower :: "string \<Rightarrow> string" where
  "lower s = map lower_char s"

text \<open>
  \<open>str.upper()\<close>, as far as the converter observes it: it is only searched for an
  ASCII literal, and the three code points below 256 whose upper case leaves the range
  (\<open>0xB5\<close>, \<open>0xDF\<close>, \<open>0xFF\<close>) never produce a character of that literal.
\<close>

definition upper_char :: "char \<Rightarrow> char" where
  "upper_char c =
     (let n = (of_char c :: nat)
      in if (97 \<le> n \<and> n \<le> 122) \<or> (224 \<le> n \<and> n \<le> 254 \<and> n \<noteq> 247)
         then char_of (n - 32) else c)"

definition upper :: "string \<Rightarrow> string" where
  "upper s = map upper_char s"

text \<open>\<open>s.startswith(p)\<close> and \<open>s.endswith(p)\<close>\<close>

definition startswith :: "string \<Rightarrow> string \<Rightarrow> bool" where
  "startswith s p = (take (length p) s = p)"

definition endswith :: "string \<Rightarrow> string \<Rightarrow> bool" where
  "endswith s p = (length p \<le> length s \<and> drop (length s - length p) s = p)"

text \<open>\<open>sub in s\<close>\<close>

fun isin :: "string \<Rightarrow> string \<Rightarrow> bool" where
  "isin sub [] = (sub = [])"
| "isin sub (c # cs) = (startswith (c # cs) sub \<or> isin sub cs)"

text \<open>
  Whitespace as \<open>str.strip()\<close> and \<open>str.split()\<close> see it: the code points below 256
  for which \<open>str.isspace()\<close> holds.
\<close>

definition is_space :: "char \<Rightarrow> bool" where
  "is_space c =
     (let n = (of_char c :: nat)
      in (9 \<le> n \<and> n \<le> 13) \<or> (28 \<le> n \<and> n \<le> 32) \<or> n = 133 \<or> n = 160)"

text \<open>\<open>s.strip()\<close>\<close>

definition strip :: "string \<Rightarrow> string" where
  "strip s = rev (dropWhile is_space (rev (dropWhile is_space s)))"

text \<open>\<open>s.split()\<close>: the maximal runs of non-whitespace characters.\<close>

function split_ws :: "string \<Rightarrow> string list" where
  "split_ws [] = []"
| "split_ws (c # cs) =
     (if is_space c then split_ws cs
      else (c # takeWhile (\<lambda>x. \<not> is_space x) cs)
             # split_ws (dropWhile (\<lambda>x. \<not> is_space x) cs))"
  by pat_completeness auto
termination
  by (relation "measure length") (auto simp: less_Suc_eq_le length_dropWhile_le)

text \<open>
  \<open>s.split(sep)\<close> for a separator of one character. The result is never empty, so the
  first branch of the inner \<open>case\<close> is never taken.
\<close>

fun split_on :: "char \<Rightarrow> string \<Rightarrow> string list" where
  "split_on sep [] = [[]]"
| "split_on sep (c # cs) =
     (if c = sep then [] # split_on sep cs
      else (case split_on sep cs of
              [] \<Rightarrow> [[c]]
            | w # ws \<Rightarrow> (c # w) # ws))"

text \<open>\<open>sep.join(parts)\<close>\<close>

fun join :: "string \<Rightarrow> string list \<Rightarrow> string" where
  "join sep [] = []"
| "join sep [x] = x"
| "join sep (x # y # ys) = x @ sep @ join sep (y # ys)"

text \<open>
  \<open>s.encode()\<close>: UTF-8. A code point below 128 is one byte, the others below 256 are two.
\<close>

definition utf8_encode :: "string \<Rightarrow> bytes" where
  "utf8_encode s =
     concat (map (\<lambda>c. let n = (of_char c :: nat)
                        in if n < 128 then [c]
                           else [char_of (192 + n div 64), char_of (128 + n mod 64)]) s)"

text \<open>
  The truth value Python gives an optional byte string or string in a condition:
  \<open>None\<close> and the empty value are false.
\<close>

definition truthy :: "string option \<Rightarrow> bool" where
  "truthy v = (case v of None \<Rightarrow> False | Some x \<Rightarrow> x \<noteq> [])"

definition the_value :: "string option \<Rightarrow> string" where
  "the_value v = (case v of None \<Rightarrow> [] | Some x \<Rightarrow> x)"

section \<open>Library functions\<close>

text \<open>\<open>base64.b64encode(content).decode('utf-8')\<close>\<close>

definition b64_char :: "nat \<Rightarrow> char" where
  "b64_char n =
     ''ABCDEFGHIJKLMNOPQRSTUVWXYZabcdefghijklmnopqrstuvwxyz0123456789+/'' ! (n mod 64)"

fun b64encode :: "bytes \<Rightarrow> string" where
  "b64encode [] = []"
| "b64encode [a] =
     (let n = (of_char a :: nat) * 16
      in [b64_char (n div 64), b64_char n, CHR ''='', CHR ''=''])"
| "b64encode [a, b] =
     (let n = ((of_char a :: nat) * 256 + of_char b) * 4
      in [b64_char (n div 4096), b64_char (n div 64), b64_char n, CHR ''=''])"
| "b64encode (a # b # c # rest) =
     (let n = (of_char a :: nat) * 65536 + of_char b * 256 + of_char c
      in [b64_char (n div 262144), b64_char (n div 4096), b64_char (n div 64), b64_char n]
         @ b64encode rest)"

text \<open>
  \<open>hashlib.md5(data).hexdigest()\<close>: the digest function itself is a parameter of the
  model (field \<open>md5\<close> of the environment below); its 128 bits are printed as 32 lower-case
  hexadecimal digits.
\<close>

definition hex_digit :: "nat \<Rightarrow> char" where
  "hex_digit n = ''0123456789abcdef'' ! (n mod 16)"

definition hexdigest :: "128 word \<Rightarrow> string" where
  "hexdigest w = map (\<lambda>i. hex_digit (unat (drop_bit (4 * (31 - i)) w))) [0..<32]"

text \<open>
  An exception is its message, \<open>str(e)\<close>: every handler of the converter that can be
  reached is \<open>except Exception\<close> and looks at nothing else.
\<close>

datatype exn = Exn string

fun exn_text :: "exn \<Rightarrow> string" where
  "exn_text (Exn msg) = msg"

definition bind_exn :: "exn + 'a \<Rightarrow> ('a \<Rightarrow> exn + 'b) \<Rightarrow> exn + 'b" where
  "bind_exn r f = (case r of Inl e \<Rightarrow> Inl e | Inr x \<Rightarrow> f x)"

record response =
  status_code :: nat
  resp_content :: bytes
  resp_content_type :: "string option"

record parsed_url =
  netloc :: string
  url_path :: string

text \<open>
  The regular expressions of the converter. The engine is a parameter: \<open>re_match env p s\<close>
  is what \<open>re.compile(p, flags).match(s)\<close> gives at the start of \<open>s\<close>, as the length of
  the matched text and the texts of the groups 1 to 4 (empty beyond the groups of the
  pattern). No pattern below has an anchor or a look-behind, so a match at a position
  depends on the text from that position on only.
  \<^item> \<open>ScriptBlock\<close>: \<^verbatim>\<open><script\b[^<]*(?:(?!<\/script>)<[^<]*)*<\/script>\<close>, IGNORECASE, DOTALL
  \<^item> \<open>OnAttrDouble\<close>: \<^verbatim>\<open>\s+on\w+="[^"]*"\<close>, IGNORECASE
  \<^item> \<open>OnAttrSingle\<close>: \<^verbatim>\<open>\s+on\w+='[^']*'\<close>, IGNORECASE
  \<^item> \<open>LazyAttr attr\<close>:
    \<^verbatim>\<open>(<img[^>]*?)(?:\s+src=["\'][^"\']*["\'])?\s+{attr}=["\']([^"\']+)["\']([^>]*>)\<close>, IGNORECASE
  \<^item> \<open>DataSrcset\<close>: \<^verbatim>\<open>(<(?:img|source)[^>]*?)\s+data-srcset=["\']([^"\']+)["\']\<close>, IGNORECASE
  \<^item> \<open>LoadingLazy\<close>: \<^verbatim>\<open>\s+loading=["\']lazy["\']\<close>, IGNORECASE
  \<^item> \<open>StylesheetRelHref\<close>:
    \<^verbatim>\<open><link[^>]+rel=["\']stylesheet["\'][^>]+href=["\']([^"\']+)["\'][^>]*>\<close>, IGNORECASE
  \<^item> \<open>StylesheetHrefRel\<close>:
    \<^verbatim>\<open><link[^>]+href=["\']([^"\']+)["\'][^>]+rel=["\']stylesheet["\'][^>]*>\<close>, IGNORECASE
  \<^item> \<open>StylesheetCssHref\<close>: \<^verbatim>\<open><link[^>]+href=["\']([^"\']+\.css[^"\']*)["\'][^>]*>\<close>, IGNORECASE
  \<^item> \<open>LinkHref href_escaped\<close>:
    \<^verbatim>\<open><link[^>]+href=["\'][^"\']*{href_escaped}[^"\']*["\'][^>]*>\<close>, IGNORECASE
  \<^item> \<open>CssUrl\<close>: \<^verbatim>\<open>url\(\s*["\']?([^"\'()\s\\]+(?:\\.[^"\'()\s\\]*)*)["\']?\s*\)\<close>, no flag
  \<^item> \<open>ImgSrc\<close>: \<^verbatim>\<open>(<img[^>]+src=)(["\'])([^"\']+)(\2[^>]*>)\<close>, IGNORECASE
  \<^item> \<open>Srcset\<close>: \<^verbatim>\<open>srcset=["\']([^"\']+)["\']\<close>, IGNORECASE
  \<^item> \<open>StyleUrl\<close>: \<^verbatim>\<open>(style=["\'][^"\']*url\(["\']?)([^"\')\s]+)(["\']?\)[^"\']*["\'])\<close>, IGNORECASE
  \<^item> \<open>SourceSrcset\<close>: \<^verbatim>\<open>(<source[^>]+srcset=)(["\'])([^"\']+)(\2[^>]*>)\<close>, IGNORECASE
  \<^item> \<open>HeadClose\<close>: \<^verbatim>\<open>(</head>)\<close>, IGNORECASE
  \<^item> \<open>BodyOpen\<close>: \<^verbatim>\<open>(<body[^>]*>)\<close>, IGNORECASE
  \<^item> \<open>Doctype\<close>: \<^verbatim>\<open>(<!DOCTYPE[^>]*>)\<close>, IGNORECASE
\<close>

datatype pattern =
    ScriptBlock | OnAttrDouble | OnAttrSingle
  | LazyAttr string | DataSrcset | LoadingLazy
  | StylesheetRelHref | StylesheetHrefRel | StylesheetCssHref | LinkHref string
  | CssUrl | ImgSrc | Srcset | StyleUrl | SourceSrcset
  | HeadClose | BodyOpen | Doctype

text \<open>A match object: \<open>group(0)\<close> to \<open>group(4)\<close>.\<close>

record rmatch =
  g0 :: string
  g1 :: string
  g2 :: string
  g3 :: string
  g4 :: string

type_synonym matcher = "string \<Rightarrow> (nat \<times> string \<times> string \<times> string \<times> string) option"

text \<open>
  What the program takes from outside: the network, the libraries whose results the
  model does not compute, the file system, the clock and the two literal texts of the
  module that hold characters beyond code point 255 (\<open>WATERMARK_HTML.format(...)\<close> and
  the f-string \<open>meta_comment\<close>). The theorems below hold for every environment.
  \<^item> \<open>requests_get\<close>: \<open>requests.get(url, ...)\<close>, the response or the exception raised.
    The network is a function of the URL for the duration of one conversion.
  \<^item> \<open>http_error_text url r\<close>: the text of the \<open>HTTPError\<close> that \<open>raise_for_status()\<close>
    raises for a response with a 4xx or 5xx status.
  \<^item> \<open>urljoin\<close>, \<open>urlparse\<close>: \<open>urllib.parse\<close>; both raise \<open>ValueError\<close> on some inputs.
  \<^item> \<open>decode_css\<close>: the loop over the encodings utf-8, latin-1, cp1252 of lines 277-286.
    \<open>latin-1\<close> decodes every byte string, so the loop always ends with a text.
  \<^item> \<open>re_template\<close>: the parsing of a replacement template by \<open>re.sub\<close>: \<open>re.error\<close> for a
    bad escape, or the function expanding the template for a match.
  \<^item> \<open>mkdir_error\<close>, \<open>write_error\<close>: the \<open>OSError\<close>, if any, of \<open>Path.mkdir(exist_ok=True)\<close>
    and \<open>Path.write_bytes\<close>.
  \<^item> \<open>set_iter\<close>: the iteration order of the set \<open>stylesheet_matches\<close>;
    \<open>as_completed\<close>: the submitted references in the order in which their fetches
    complete.
\<close>

record env =
  REQUESTS_AVAILABLE :: bool
  requests_get :: "string \<Rightarrow> exn + response"
  http_error_text :: "string \<Rightarrow> response \<Rightarrow> string"
  urljoin :: "string \<Rightarrow> string \<Rightarrow> exn + string"
  urlparse :: "string \<Rightarrow> exn + parsed_url"
  md5 :: "bytes \<Rightarrow> 128 word"
  decode_css :: "bytes \<Rightarrow> string"
  re_match :: "pattern \<Rightarrow> matcher"
  re_escape :: "string \<Rightarrow> string"
  re_template :: "string \<Rightarrow> exn + (rmatch \<Rightarrow> string)"
  mkdir_error :: "string \<Rightarrow> exn option"
  write_error :: "string \<Rightarrow> bytes \<Rightarrow> exn option"
  set_iter :: "string list \<Rightarrow> string list"
  as_completed :: "string list \<Rightarrow> string list"
  now_watermark :: string
  now_meta :: string
  WATERMARK_HTML :: "string \<Rightarrow> string \<Rightarrow> string"
  meta_comment :: "string \<Rightarrow> string \<Rightarrow> string \<Rightarrow> string"

section \<open>Regular expression substitution\<close>

datatype seg = Lit char | Mat rmatch

text \<open>
  The scan of \<open>re.sub\<close> and \<open>re.findall\<close>: the non-overlapping matches from left to right,
  and the characters between them. Every pattern of the converter consumes at least one
  character; a result of the engine that is empty or longer than the text counts as no
  match.
\<close>

function scan :: "matcher \<Rightarrow> string \<Rightarrow> seg list" where
  "scan mt [] = []"
| "scan mt (c # cs) =
     (case mt (c # cs) of
        None \<Rightarrow> Lit c # scan mt cs
      | Some (n, a1, a2, a3, a4) \<Rightarrow>
          if 0 < n \<and> n \<le> length (c # cs)
          then Mat \<lparr>g0 = take n (c # cs), g1 = a1, g2 = a2, g3 = a3, g4 = a4\<rparr>
                 # scan mt (drop n (c # cs))
          else Lit c # scan mt cs)"
  by pat_completeness auto
termination
  by (relation "measure (\<lambda>(mt, s). length s)") auto

fun seg_text :: "seg \<Rightarrow> string" where
  "seg_text (Lit c) = [c]"
| "seg_text (Mat m) = g0 m"

text \<open>\<open>re.sub(pattern, repl, string)\<close> for a replacement without effects.\<close>

fun sub_all :: "(rmatch \<Rightarrow> string) \<Rightarrow> seg list \<Rightarrow> string" where
  "sub_all repl [] = []"
| "sub_all repl (Lit c # segs) = c # sub_all repl segs"
| "sub_all repl (Mat m # segs) = repl m @ sub_all repl segs"

text \<open>\<open>re.sub(pattern, repl, string, count=1)\<close>\<close>

fun sub_first :: "(rmatch \<Rightarrow> string) \<Rightarrow> seg list \<Rightarrow> string" where
  "sub_first repl [] = []"
| "sub_first repl (Lit c # segs) = c # sub_first repl segs"
| "sub_first repl (Mat m # segs) = repl m @ concat (map seg_text segs)"

text \<open>
  \<open>re.sub(pattern, callback, string)\<close> for a callback that fetches, counts and may
  raise: the callback runs once for each match, from left to right, on the state the
  match before left; an exception of the callback ends the substitution.
\<close>

fun sub_fn ::
  "(rmatch \<Rightarrow> 'st \<Rightarrow> exn + string \<times> 'st) \<Rightarrow> seg list \<Rightarrow> 'st \<Rightarrow> exn + string \<times> 'st" where
  "sub_fn repl [] st = Inr ([], st)"
| "sub_fn repl (Lit c # segs) st =
     (case sub_fn repl segs st of
        Inl e \<Rightarrow> Inl e
      | Inr (out, st') \<Rightarrow> Inr (c # out, st'))"
| "sub_fn repl (Mat m # segs) st =
     (case repl m st of
        Inl e \<Rightarrow> Inl e
      | Inr (r, st1) \<Rightarrow>
          (case sub_fn repl segs st1 of
             Inl e \<Rightarrow> Inl e
           | Inr (out, st2) \<Rightarrow> Inr (r @ out, st2)))"

text \<open>\<open>re.findall(pattern, string)\<close> for a pattern with one group.\<close>

fun findall :: "seg list \<Rightarrow> string list" where
  "findall [] = []"
| "findall (Lit c # segs) = findall segs"
| "findall (Mat m # segs) = g1 m # findall segs"

section \<open>MIME resolver\<close>

text \<open>\<open>get_mime_type(url, content_type='')\<close>, lines 105-134.\<close>

definition get_mime_type :: "string \<Rightarrow> string \<Rightarrow> string" where
  "get_mime_type url content_type =
     (let url_lower = lower url;
          content_type_lower = (if content_type = [] then [] else lower content_type)
      in if isin ''css'' content_type_lower \<or> endswith url_lower ''.css''
           then ''text/css''
         else if isin ''javascript'' content_type_lower \<or> endswith url_lower ''.js''
           then ''application/javascript''
         else if isin ''png'' content_type_lower \<or> endswith url_lower ''.png''
           then ''image/png''
         else if isin ''jpeg'' content_type_lower \<or> isin ''.jpg'' url_lower
                 \<or> isin ''.jpeg'' url_lower
           then ''image/jpeg''
         else if isin ''gif'' content_type_lower \<or> endswith url_lower ''.gif''
           then ''image/gif''
         else if isin ''svg'' content_type_lower \<or> endswith url_lower ''.svg''
           then ''image/svg+xml''
         else if isin ''webp'' content_type_lower \<or> endswith url_lower ''.webp''
           then ''image/webp''
         else if isin ''ico'' content_type_lower \<or> endswith url_lower ''.ico''
           then ''image/x-icon''
         else if isin ''woff2'' content_type_lower \<or> endswith url_lower ''.woff2''
           then ''font/woff2''
         else if isin ''woff'' content_type_lower \<or> endswith url_lower ''.woff''
           then ''font/woff''
         else if isin ''ttf'' content_type_lower \<or> endswith url_lower ''.ttf''
           then ''font/ttf''
         else if isin ''eot'' content_type_lower \<or> endswith url_lower ''.eot''
           then ''application/vnd.ms-fontobject''
         else if content_type = [] then ''application/octet-stream'' else content_type)"

section \<open>Conversion state\<close>

text \<open>
  The dictionary \<open>stats\<close> and the list \<open>errors\<close> of \<open>create_standalone_html\<close>, which its
  callbacks update, together with two records of effects: \<open>fetch_calls\<close>, the URLs
  \<open>fetch_resource\<close> was called with, in the order of the calls, and \<open>files_written\<close>, the
  files \<open>save_asset_to_file\<close> wrote. The key \<open>total_size_after\<close> is set at the end only.
\<close>

record conv_state =
  stylesheets_inlined :: nat
  images_inlined :: nat
  fonts_inlined :: nat
  assets_downloaded :: nat
  total_size_before :: nat
  resources_failed :: nat
  source_url :: string
  total_size_after :: "nat option"
  errors :: "string list"
  fetch_calls :: "string list"
  files_written :: "(string \<times> bytes) list"

definition initial_state :: "string \<Rightarrow> string \<Rightarrow> conv_state" where
  "initial_state html base_url =
     \<lparr>stylesheets_inlined = 0, images_inlined = 0, fonts_inlined = 0,
      assets_downloaded = 0, total_size_before = length html, resources_failed = 0,
      source_url = base_url, total_size_after = None, errors = [],
      fetch_calls = [], files_written = []\<rparr>"

section \<open>Fetcher\<close>

text \<open>
  \<open>fetch_resource(url)\<close>, lines 91-102. The result is the tuple of the source: the URL,
  the payload or \<open>None\<close>, and the content type or the text of the exception.
\<close>

definition fetch_resource ::
  "env \<Rightarrow> string \<Rightarrow> conv_state \<Rightarrow> (string \<times> bytes option \<times> string) \<times> conv_state" where
  "fetch_resource env url st =
     (let st1 = st\<lparr>fetch_calls := fetch_calls st @ [url]\<rparr>
      in if REQUESTS_AVAILABLE env
         then (case requests_get env url of
                 Inl e \<Rightarrow> ((url, None, exn_text e), st1)
               | Inr r \<Rightarrow>
                   if 400 \<le> status_code r \<and> status_code r < 600
                   then ((url, None, http_error_text env url r), st1)
                   else ((url, Some (resp_content r),
                          (case resp_content_type r of None \<Rightarrow> [] | Some t \<Rightarrow> t)), st1))
         else ((url, None, ''requests nicht installiert''), st1))"

section \<open>CSS URL inliner\<close>

text \<open>The callback \<open>replace_url\<close> of \<open>inline_css_resources\<close>, lines 142-161.\<close>

definition replace_url :: "env \<Rightarrow> string \<Rightarrow> rmatch \<Rightarrow> conv_state \<Rightarrow> string \<times> conv_state" where
  \<open>replace_url env base_url m st =
     (let url = g1 m
      in if url = [] \<or> startswith url ''data:'' then (g0 m, st)
         else
           let clean_url = filter (\<lambda>c. c \<noteq> CHR 0x5C) url
           in case urljoin env base_url clean_url of
                Inl e \<Rightarrow> (g0 m, st)
              | Inr absolute_url \<Rightarrow>
                  (case fetch_resource env absolute_url st of
                     ((u, content, content_type), st1) \<Rightarrow>
                       if truthy content
                       then let mime = get_mime_type clean_url content_type;
                                b64 = b64encode (the_value content)
                            in (''url("data:'' @ mime @ '';base64,'' @ b64 @ ''")'', st1)
                       else (g0 m, st1)))\<close>

text \<open>
  \<open>inline_css_resources(css_content, base_url)\<close>, lines 137-167. The callback catches
  its own exceptions, so the handler around \<open>re.sub\<close> is never entered.
\<close>

definition inline_css_resources ::
  "env \<Rightarrow> string \<Rightarrow> string \<Rightarrow> conv_state \<Rightarrow> string \<times> conv_state" where
  "inline_css_resources env css_content base_url st =
     (case sub_fn (\<lambda>m s. Inr (replace_url env base_url m s))
             (scan (re_match env CssUrl) css_content) st of
        Inl e \<Rightarrow> (css_content, st)
      | Inr r \<Rightarrow> r)"

section \<open>Asset store\<close>

text \<open>\<open>save_asset_to_file(content, url, assets_folder, asset_type)\<close>, lines 170-190.\<close>

definition save_asset_to_file ::
  "env \<Rightarrow> bytes \<Rightarrow> string \<Rightarrow> string \<Rightarrow> string \<Rightarrow> conv_state \<Rightarrow> exn + string \<times> conv_state" where
  "save_asset_to_file env content url assets_folder asset_type st =
     (let url_hash = take 12 (hexdigest (md5 env (utf8_encode url)))
      in case urlparse env url of
           Inl e \<Rightarrow> Inl e
         | Inr parsed \<Rightarrow>
             let path_parts = split_on CHR ''/'' (url_path parsed);
                 original_name = (if last path_parts = [] then ''asset'' else last path_parts);
                 ext = (if CHR ''.'' \<in> set original_name
                        then ''.'' @ take 10 (hd (split_on CHR ''?''
                                                   (last (split_on CHR ''.'' original_name))))
                        else []);
                 filename = url_hash @ ext;
                 subdir = assets_folder @ ''/'' @ asset_type
             in case mkdir_error env subdir of
                  Some e \<Rightarrow> Inl e
                | None \<Rightarrow>
                    let filepath = subdir @ ''/'' @ filename
                    in case write_error env filepath content of
                         Some e \<Rightarrow> Inl e
                       | None \<Rightarrow>
                           Inr (assets_folder @ ''/'' @ asset_type @ ''/'' @ filename,
                                st\<lparr>files_written := files_written st @ [(filepath, content)]\<rparr>))"


section \<open>Resource extractor and rewriter\<close>

subsection \<open>Steps 1 and 2: scripts, handlers, lazy-load attributes\<close>

text \<open>Lines 222-225, run when \<open>remove_scripts\<close> is set.\<close>

definition strip_scripts :: "env \<Rightarrow> string \<Rightarrow> string" where
  "strip_scripts env html =
     (let html1 = sub_all (\<lambda>m. []) (scan (re_match env ScriptBlock) html);
          html2 = sub_all (\<lambda>m. []) (scan (re_match env OnAttrDouble) html1)
      in sub_all (\<lambda>m. []) (scan (re_match env OnAttrSingle) html2))"

definition lazy_attrs :: "string list" where
  "lazy_attrs = [''data-src'', ''data-lazy-src'', ''data-original'', ''data-lazy'']"

text \<open>
  Lines 228-247. The replacement templates \<^verbatim>\<open>\1 src="\2"\3\<close> and \<^verbatim>\<open>\1 srcset="\2"\<close> are
  constants of the source, written here as the functions they expand to.
\<close>

definition normalize_lazy :: "env \<Rightarrow> string \<Rightarrow> string" where
  \<open>normalize_lazy env html =
     (let html1 = foldl (\<lambda>h attr. sub_all (\<lambda>m. g1 m @ '' src="'' @ g2 m @ ''"'' @ g3 m)
                                     (scan (re_match env (LazyAttr attr)) h))
                        html lazy_attrs;
          html2 = sub_all (\<lambda>m. g1 m @ '' srcset="'' @ g2 m @ ''"'')
                    (scan (re_match env DataSrcset) html1)
      in sub_all (\<lambda>m. []) (scan (re_match env LoadingLazy) html2))\<close>

subsection \<open>Step 3: external stylesheets\<close>

definition stylesheet_patterns :: "pattern list" where
  "stylesheet_patterns = [StylesheetRelHref, StylesheetHrefRel, StylesheetCssHref]"

text \<open>
  Lines 266-268: each reference is resolved and its fetch submitted to the pool. An
  exception of \<open>urljoin\<close> leaves the function.
\<close>

fun submit_all ::
  "env \<Rightarrow> string \<Rightarrow> string list \<Rightarrow> conv_state \<Rightarrow>
   exn + (string \<times> string \<times> bytes option \<times> string) list \<times> conv_state" where
  "submit_all env base_url [] st = Inr ([], st)"
| "submit_all env base_url (href # hrefs) st =
     (case urljoin env base_url href of
        Inl e \<Rightarrow> Inl e
      | Inr absolute_url \<Rightarrow>
          (case fetch_resource env absolute_url st of
             (result, st1) \<Rightarrow>
               (case submit_all env base_url hrefs st1 of
                  Inl e \<Rightarrow> Inl e
                | Inr (futures, st2) \<Rightarrow> Inr ((href, result) # futures, st2))))"

text \<open>
  Lines 271-308: the body of the loop over the completed futures, for the reference
  \<open>href\<close> and the result of its fetch. The \<open>try\<close> block catches what the download branch
  raises.
\<close>

definition process_stylesheet ::
  "env \<Rightarrow> string \<Rightarrow> string option \<Rightarrow> string \<times> conv_state \<Rightarrow>
   string \<times> string \<times> bytes option \<times> string \<Rightarrow> string \<times> conv_state" where
  \<open>process_stylesheet env assets_mode assets_folder acc future =
     (case (acc, future) of
        ((html, st), (href, (url, content, content_type))) \<Rightarrow>
          if truthy content
          then
            let css_content = decode_css env (the_value content);
                href_escaped = re_escape env (hd (split_on CHR ''?'' href));
                link_pattern = LinkHref href_escaped
            in if assets_mode = ''embed''
               then (case inline_css_resources env css_content url st of
                       (css_inlined, st1) \<Rightarrow>
                         let replacement = ''<style>/* Inlined: '' @ href @ '' */'' @ [CHR 0x0A]
                                           @ css_inlined @ ''</style>''
                         in (sub_first (\<lambda>m. replacement) (scan (re_match env link_pattern) html),
                             st1\<lparr>stylesheets_inlined := stylesheets_inlined st1 + 1\<rparr>))
               else if assets_mode = ''download'' \<and> truthy assets_folder
               then (case save_asset_to_file env (the_value content) url
                            (the_value assets_folder) ''css'' st of
                       Inl e \<Rightarrow>
                         (html, st\<lparr>errors := errors st
                                       @ [''CSS Parse-Fehler: '' @ href @ '' - '' @ exn_text e],
                                     resources_failed := resources_failed st + 1\<rparr>)
                     | Inr (local_path, st1) \<Rightarrow>
                         (case re_template env
                                 (''<link rel="stylesheet" href="'' @ local_path @ ''">'') of
                            Inl e \<Rightarrow>
                              (html, st1\<lparr>errors := errors st1
                                             @ [''CSS Parse-Fehler: '' @ href @ '' - '' @ exn_text e],
                                           resources_failed := resources_failed st1 + 1\<rparr>)
                          | Inr expand \<Rightarrow>
                              (sub_first expand (scan (re_match env link_pattern) html),
                               st1\<lparr>assets_downloaded := assets_downloaded st1 + 1\<rparr>)))
               else (html, st)
          else (html, st\<lparr>errors := errors st
                             @ [''CSS nicht geladen: '' @ href @ '' - '' @ content_type],
                           resources_failed := resources_failed st + 1\<rparr>))\<close>

text \<open>
  The futures in the order of \<open>as_completed\<close>, each with the reference it was submitted
  for (the dictionary \<open>futures\<close>).
\<close>

definition completed ::
  "env \<Rightarrow> (string \<times> string \<times> bytes option \<times> string) list \<Rightarrow>
   (string \<times> string \<times> bytes option \<times> string) list" where
  "completed env futures =
     concat (map (\<lambda>href. case map_of futures href of
                             None \<Rightarrow> []
                           | Some result \<Rightarrow> [(href, result)])
                 (as_completed env (map fst futures)))"

text \<open>
  Lines 250-308, under \<open>assets_mode != 'hotlink'\<close>. \<open>ThreadPoolExecutor\<close> raises
  \<open>ValueError\<close> for a pool of no workers.
\<close>

definition stylesheet_pass ::
  "env \<Rightarrow> string \<Rightarrow> int \<Rightarrow> string \<Rightarrow> string option \<Rightarrow> string \<times> conv_state \<Rightarrow>
   exn + string \<times> conv_state" where
  "stylesheet_pass env base_url max_workers assets_mode assets_folder acc =
     (case acc of
        (html, st) \<Rightarrow>
          let stylesheet_matches =
                remdups (concat (map (\<lambda>p. findall (scan (re_match env p) html))
                                     stylesheet_patterns))
          in if stylesheet_matches \<noteq> [] \<and> REQUESTS_AVAILABLE env
             then if max_workers \<le> 0
                  then Inl (Exn ''max_workers must be greater than 0'')
                  else (case submit_all env base_url (set_iter env stylesheet_matches) st of
                          Inl e \<Rightarrow> Inl e
                        | Inr (futures, st1) \<Rightarrow>
                            Inr (foldl (process_stylesheet env assets_mode assets_folder)
                                       (html, st1) (completed env futures)))
             else Inr (html, st))"

subsection \<open>Step 4: images\<close>

text \<open>The callback \<open>replace_image\<close>, lines 314-340.\<close>

definition replace_image ::
  "env \<Rightarrow> string \<Rightarrow> string \<Rightarrow> string option \<Rightarrow> rmatch \<Rightarrow> conv_state \<Rightarrow>
   exn + string \<times> conv_state" where
  "replace_image env base_url assets_mode assets_folder m st =
     (let prefix = g1 m; quote = g2 m; src = g3 m; suffix = g4 m
      in if startswith src ''data:'' then Inr (g0 m, st)
         else
           case urljoin env base_url src of
             Inl e \<Rightarrow> Inl e
           | Inr absolute_url \<Rightarrow>
               (case fetch_resource env absolute_url st of
                  ((u, content, content_type), st1) \<Rightarrow>
                    if truthy content
                    then
                      if assets_mode = ''embed''
                      then let mime = get_mime_type src content_type;
                               b64 = b64encode (the_value content);
                               data_url = ''data:'' @ mime @ '';base64,'' @ b64
                           in Inr (prefix @ quote @ data_url @ suffix,
                                   st1\<lparr>images_inlined := images_inlined st1 + 1\<rparr>)
                      else if assets_mode = ''download'' \<and> truthy assets_folder
                      then (case save_asset_to_file env (the_value content) absolute_url
                                   (the_value assets_folder) ''images'' st1 of
                              Inl e \<Rightarrow> Inl e
                            | Inr (local_path, st2) \<Rightarrow>
                                Inr (prefix @ quote @ local_path @ suffix,
                                     st2\<lparr>assets_downloaded := assets_downloaded st2 + 1\<rparr>))
                      else Inr (g0 m, st1)
                    else Inr (g0 m,
                              st1\<lparr>errors := errors st1 @ [''Bild nicht geladen: '' @ src],
                                  resources_failed := resources_failed st1 + 1\<rparr>)))"

text \<open>Lines 311-343.\<close>

definition image_pass ::
  "env \<Rightarrow> string \<Rightarrow> string \<Rightarrow> string option \<Rightarrow> string \<times> conv_state \<Rightarrow>
   exn + string \<times> conv_state" where
  "image_pass env base_url assets_mode assets_folder acc =
     (case acc of
        (html, st) \<Rightarrow>
          if REQUESTS_AVAILABLE env
          then sub_fn (replace_image env base_url assets_mode assets_folder)
                 (scan (re_match env ImgSrc) html) st
          else Inr (html, st))"


subsection \<open>Step 5: srcset\<close>

text \<open>
  The loop of \<open>replace_srcset\<close> over \<open>srcset.split(',')\<close>, lines 353-384, with the list
  \<open>new_srcset_parts\<close> built so far. A candidate fetched in a mode that neither embeds nor
  downloads is appended nowhere.
\<close>

fun srcset_loop ::
  "env \<Rightarrow> string \<Rightarrow> string \<Rightarrow> string option \<Rightarrow> string list \<Rightarrow> string list \<Rightarrow> conv_state \<Rightarrow>
   exn + string list \<times> conv_state" where
  "srcset_loop env base_url assets_mode assets_folder [] new_srcset_parts st =
     Inr (new_srcset_parts, st)"
| "srcset_loop env base_url assets_mode assets_folder (raw # rest) new_srcset_parts st =
     (let part = strip raw
      in if part = []
         then srcset_loop env base_url assets_mode assets_folder rest new_srcset_parts st
         else
           case split_ws part of
             [] \<Rightarrow> srcset_loop env base_url assets_mode assets_folder rest new_srcset_parts st
           | src # others \<Rightarrow>
               let descriptor = (case others of [] \<Rightarrow> [] | d # ds \<Rightarrow> d)
               in if startswith src ''data:''
                  then srcset_loop env base_url assets_mode assets_folder rest
                         (new_srcset_parts @ [part]) st
                  else
                    case urljoin env base_url src of
                      Inl e \<Rightarrow> Inl e
                    | Inr absolute_url \<Rightarrow>
                        (case fetch_resource env absolute_url st of
                           ((u, content, content_type), st1) \<Rightarrow>
                             if truthy content
                             then
                               if assets_mode = ''embed''
                               then let mime = get_mime_type src content_type;
                                        b64 = b64encode (the_value content);
                                        data_url = ''data:'' @ mime @ '';base64,'' @ b64
                                    in srcset_loop env base_url assets_mode assets_folder rest
                                         (new_srcset_parts @ [strip (data_url @ '' '' @ descriptor)])
                                         (st1\<lparr>images_inlined := images_inlined st1 + 1\<rparr>)
                               else if assets_mode = ''download'' \<and> truthy assets_folder
                               then (case save_asset_to_file env (the_value content) absolute_url
                                            (the_value assets_folder) ''images'' st1 of
                                       Inl e \<Rightarrow> Inl e
                                     | Inr (local_path, st2) \<Rightarrow>
                                         srcset_loop env base_url assets_mode assets_folder rest
                                           (new_srcset_parts
                                            @ [strip (local_path @ '' '' @ descriptor)])
                                           (st2\<lparr>assets_downloaded := assets_downloaded st2 + 1\<rparr>))
                               else srcset_loop env base_url assets_mode assets_folder rest
                                      new_srcset_parts st1
                             else srcset_loop env base_url assets_mode assets_folder rest
                                    (new_srcset_parts @ [part]) st1))"

text \<open>The callback \<open>replace_srcset\<close>, lines 349-388.\<close>

definition replace_srcset ::
  "env \<Rightarrow> string \<Rightarrow> string \<Rightarrow> string option \<Rightarrow> rmatch \<Rightarrow> conv_state \<Rightarrow>
   exn + string \<times> conv_state" where
  \<open>replace_srcset env base_url assets_mode assets_folder m st =
     (let srcset = g1 m
      in case srcset_loop env base_url assets_mode assets_folder
                (split_on CHR '','' srcset) [] st of
           Inl e \<Rightarrow> Inl e
         | Inr (new_srcset_parts, st1) \<Rightarrow>
             if new_srcset_parts \<noteq> []
             then Inr (''srcset="'' @ join '', '' new_srcset_parts @ ''"'', st1)
             else Inr (g0 m, st1))\<close>

text \<open>Lines 346-391.\<close>

definition srcset_pass ::
  "env \<Rightarrow> string \<Rightarrow> string \<Rightarrow> string option \<Rightarrow> string \<times> conv_state \<Rightarrow>
   exn + string \<times> conv_state" where
  "srcset_pass env base_url assets_mode assets_folder acc =
     (case acc of
        (html, st) \<Rightarrow>
          if REQUESTS_AVAILABLE env
          then sub_fn (replace_srcset env base_url assets_mode assets_folder)
                 (scan (re_match env Srcset) html) st
          else Inr (html, st))"

subsection \<open>Step 6: background images in style attributes\<close>

text \<open>The callback \<open>replace_style_url\<close>, lines 397-420.\<close>

definition replace_style_url ::
  "env \<Rightarrow> string \<Rightarrow> string \<Rightarrow> string option \<Rightarrow> rmatch \<Rightarrow> conv_state \<Rightarrow>
   exn + string \<times> conv_state" where
  "replace_style_url env base_url assets_mode assets_folder m st =
     (let prefix = g1 m; url = g2 m; suffix = g3 m
      in if startswith url ''data:'' then Inr (g0 m, st)
         else
           case urljoin env base_url url of
             Inl e \<Rightarrow> Inl e
           | Inr absolute_url \<Rightarrow>
               (case fetch_resource env absolute_url st of
                  ((u, content, content_type), st1) \<Rightarrow>
                    if truthy content
                    then
                      if assets_mode = ''embed''
                      then let mime = get_mime_type url content_type;
                               b64 = b64encode (the_value content);
                               data_url = ''data:'' @ mime @ '';base64,'' @ b64
                           in Inr (prefix @ data_url @ suffix,
                                   st1\<lparr>images_inlined := images_inlined st1 + 1\<rparr>)
                      else if assets_mode = ''download'' \<and> truthy assets_folder
                      then (case save_asset_to_file env (the_value content) absolute_url
                                   (the_value assets_folder) ''images'' st1 of
                              Inl e \<Rightarrow> Inl e
                            | Inr (local_path, st2) \<Rightarrow>
                                Inr (prefix @ local_path @ suffix,
                                     st2\<lparr>assets_downloaded := assets_downloaded st2 + 1\<rparr>))
                      else Inr (g0 m, st1)
                    else Inr (g0 m, st1)))"

text \<open>Lines 394-423.\<close>

definition style_url_pass ::
  "env \<Rightarrow> string \<Rightarrow> string \<Rightarrow> string option \<Rightarrow> string \<times> conv_state \<Rightarrow>
   exn + string \<times> conv_state" where
  "style_url_pass env base_url assets_mode assets_folder acc =
     (case acc of
        (html, st) \<Rightarrow>
          if REQUESTS_AVAILABLE env
          then sub_fn (replace_style_url env base_url assets_mode assets_folder)
                 (scan (re_match env StyleUrl) html) st
          else Inr (html, st))"

subsection \<open>Step 7: source elements\<close>

text \<open>
  The loop of \<open>replace_source\<close>, lines 436-464. It differs from the loop of
  \<open>replace_srcset\<close> in one place: it reads \<open>pieces[0]\<close> without the test \<open>if not pieces\<close>.
\<close>

fun source_loop ::
  "env \<Rightarrow> string \<Rightarrow> string \<Rightarrow> string option \<Rightarrow> string list \<Rightarrow> string list \<Rightarrow> conv_state \<Rightarrow>
   exn + string list \<times> conv_state" where
  "source_loop env base_url assets_mode assets_folder [] new_parts st = Inr (new_parts, st)"
| "source_loop env base_url assets_mode assets_folder (raw # rest) new_parts st =
     (let part = strip raw
      in if part = []
         then source_loop env base_url assets_mode assets_folder rest new_parts st
         else
           case split_ws part of
             [] \<Rightarrow> Inl (Exn ''list index out of range'')
           | src # others \<Rightarrow>
               let descriptor = (case others of [] \<Rightarrow> [] | d # ds \<Rightarrow> d)
               in if startswith src ''data:''
                  then source_loop env base_url assets_mode assets_folder rest
                         (new_parts @ [part]) st
                  else
                    case urljoin env base_url src of
                      Inl e \<Rightarrow> Inl e
                    | Inr absolute_url \<Rightarrow>
                        (case fetch_resource env absolute_url st of
                           ((u, content, content_type), st1) \<Rightarrow>
                             if truthy content
                             then
                               if assets_mode = ''embed''
                               then let mime = get_mime_type src content_type;
                                        b64 = b64encode (the_value content);
                                        data_url = ''data:'' @ mime @ '';base64,'' @ b64
                                    in source_loop env base_url assets_mode assets_folder rest
                                         (new_parts @ [strip (data_url @ '' '' @ descriptor)])
                                         (st1\<lparr>images_inlined := images_inlined st1 + 1\<rparr>)
                               else if assets_mode = ''download'' \<and> truthy assets_folder
                               then (case save_asset_to_file env (the_value content) absolute_url
                                            (the_value assets_folder) ''images'' st1 of
                                       Inl e \<Rightarrow> Inl e
                                     | Inr (local_path, st2) \<Rightarrow>
                                         source_loop env base_url assets_mode assets_folder rest
                                           (new_parts @ [strip (local_path @ '' '' @ descriptor)])
                                           (st2\<lparr>assets_downloaded := assets_downloaded st2 + 1\<rparr>))
                               else source_loop env base_url assets_mode assets_folder rest
                                      new_parts st1
                             else source_loop env base_url assets_mode assets_folder rest
                                    (new_parts @ [part]) st1))"

text \<open>The callback \<open>replace_source\<close>, lines 429-468.\<close>

definition replace_source ::
  "env \<Rightarrow> string \<Rightarrow> string \<Rightarrow> string option \<Rightarrow> rmatch \<Rightarrow> conv_state \<Rightarrow>
   exn + string \<times> conv_state" where
  "replace_source env base_url assets_mode assets_folder m st =
     (let prefix = g1 m; quote = g2 m; srcset = g3 m; suffix = g4 m
      in case source_loop env base_url assets_mode assets_folder
                (split_on CHR '','' srcset) [] st of
           Inl e \<Rightarrow> Inl e
         | Inr (new_parts, st1) \<Rightarrow>
             if new_parts \<noteq> []
             then Inr (prefix @ quote @ join '', '' new_parts @ suffix, st1)
             else Inr (g0 m, st1))"

text \<open>Lines 426-471.\<close>

definition source_pass ::
  "env \<Rightarrow> string \<Rightarrow> string \<Rightarrow> string option \<Rightarrow> string \<times> conv_state \<Rightarrow>
   exn + string \<times> conv_state" where
  "source_pass env base_url assets_mode assets_folder acc =
     (case acc of
        (html, st) \<Rightarrow>
          if REQUESTS_AVAILABLE env
          then sub_fn (replace_source env base_url assets_mode assets_folder)
                 (scan (re_match env SourceSrcset) html) st
          else Inr (html, st))"

subsection \<open>Steps 8 to 10: the injections\<close>

definition scroll_fix_css :: string where
  \<open>scroll_fix_css =
     ''<style id="standalone-scroll-fix">html, body { overflow: auto !important; ''
     @ ''overflow-x: hidden !important; height: auto !important; ''
     @ ''max-height: none !important; position: static !important; }</style>''\<close>

text \<open>
  Lines 474-480. The templates are \<open>scroll_fix_css\<close>, which holds no backslash, before
  or after \<^verbatim>\<open>\1\<close>.
\<close>

definition scroll_fix :: "env \<Rightarrow> string \<Rightarrow> string" where
  "scroll_fix env html =
     (if isin ''</head>'' (lower html)
      then sub_first (\<lambda>m. scroll_fix_css @ g1 m) (scan (re_match env HeadClose) html)
      else if isin ''<body'' (lower html)
      then sub_first (\<lambda>m. g1 m @ scroll_fix_css) (scan (re_match env BodyOpen) html)
      else scroll_fix_css @ html)"

text \<open>
  Lines 483-490. The template is \<^verbatim>\<open>\1\<close> followed by the formatted watermark, which holds
  the project name: \<open>re.sub\<close> parses it, and raises \<open>re.error\<close> on a bad escape.
\<close>

definition add_watermark :: "env \<Rightarrow> string \<Rightarrow> string \<Rightarrow> exn + string" where
  "add_watermark env project_name html =
     (let timestamp = now_watermark env;
          watermark = WATERMARK_HTML env timestamp project_name
      in if isin ''<body'' (lower html)
         then (case re_template env ([CHR 0x5C, CHR ''1''] @ watermark) of
                 Inl e \<Rightarrow> Inl e
               | Inr expand \<Rightarrow> Inr (sub_first expand (scan (re_match env BodyOpen) html)))
         else Inr (watermark @ html))"

text \<open>Lines 493-512. The template is \<^verbatim>\<open>\1\n\<close> followed by the comment.\<close>

definition add_meta_comment :: "env \<Rightarrow> string \<Rightarrow> string \<Rightarrow> string \<Rightarrow> exn + string" where
  "add_meta_comment env project_name base_url html =
     (case urlparse env base_url of
        Inl e \<Rightarrow> Inl e
      | Inr parsed_url \<Rightarrow>
          let domain = (if netloc parsed_url \<noteq> [] then take 50 (netloc parsed_url)
                        else take 50 base_url);
              meta = meta_comment env project_name (now_meta env) domain
          in if isin ''<!DOCTYPE'' (upper html)
             then (case re_template env ([CHR 0x5C, CHR ''1'', CHR 0x5C, CHR ''n''] @ meta) of
                     Inl e \<Rightarrow> Inl e
                   | Inr expand \<Rightarrow> Inr (sub_first expand (scan (re_match env Doctype) html)))
             else Inr (meta @ html))"

subsection \<open>The conversion\<close>

text \<open>
  \<open>create_standalone_html\<close>, lines 193-520. The result is the document with the final
  state, whose counters and error list are the \<open>stats\<close> and \<open>errors\<close> of the returned
  dictionary, or the exception that left the function.
\<close>

definition create_standalone_html ::
  "env \<Rightarrow> string \<Rightarrow> string \<Rightarrow> string \<Rightarrow> bool \<Rightarrow> bool \<Rightarrow> int \<Rightarrow> string \<Rightarrow> string option \<Rightarrow>
   exn + string \<times> conv_state" where
  "create_standalone_html env html base_url project_name include_watermark remove_scripts
     max_workers assets_mode assets_folder =
     (let st0 = initial_state html base_url;
          html1 = (if remove_scripts then strip_scripts env html else html);
          html2 = normalize_lazy env html1
      in bind_exn (if assets_mode \<noteq> ''hotlink''
                   then stylesheet_pass env base_url max_workers assets_mode assets_folder
                          (html2, st0)
                   else Inr (html2, st0)) (\<lambda>acc3.
         bind_exn (if assets_mode \<noteq> ''hotlink''
                   then image_pass env base_url assets_mode assets_folder acc3
                   else Inr acc3) (\<lambda>acc4.
         bind_exn (if assets_mode \<noteq> ''hotlink''
                   then srcset_pass env base_url assets_mode assets_folder acc4
                   else Inr acc4) (\<lambda>acc5.
         bind_exn (if assets_mode \<noteq> ''hotlink''
                   then style_url_pass env base_url assets_mode assets_folder acc5
                   else Inr acc5) (\<lambda>acc6.
         bind_exn (if assets_mode \<noteq> ''hotlink''
                   then source_pass env base_url assets_mode assets_folder acc6
                   else Inr acc6) (\<lambda>acc7.
           case acc7 of
             (html7, st7) \<Rightarrow>
               let html8 = scroll_fix env html7
               in bind_exn (if include_watermark then add_watermark env project_name html8
                            else Inr html8) (\<lambda>html9.
                  bind_exn (add_meta_comment env project_name base_url html9) (\<lambda>html10.
                    Inr (html10, st7\<lparr>total_size_after := Some (length html10)\<rparr>)))))))))"


section \<open>The MIME resolver as a rule table\<close>







section \<open>The extension of an asset file, as the specification words it\<close>

text \<open>
  The specification derives the extension of the file name from the final path segment
  of the URL and bounds its length. \<open>final_segment\<close> is the text after the last slash of
  a path. \<open>bounded_extension\<close> is empty for a segment without a dot; otherwise it is the
  dot followed by at most 10 characters of the text after the last dot of the segment,
  read up to a question mark.
\<close>

definition final_segment :: "string \<Rightarrow> string" where
  "final_segment path = rev (takeWhile (\<lambda>c. c \<noteq> CHR ''/'') (rev path))"

definition bounded_extension :: "string \<Rightarrow> string" where
  "bounded_extension segment =
     (if CHR ''.'' \<in> set segment
      then ''.'' @ take 10 (takeWhile (\<lambda>c. c \<noteq> CHR ''?'')
                             (rev (takeWhile (\<lambda>c. c \<noteq> CHR ''.'') (rev segment))))
      else [])"

section \<open>Environments used in the statements\<close>

text \<open>
  The environment in which every request answered with a status outside 400-599 and an
  empty payload fails instead, with the content type of the answer as the text of its
  exception.
\<close>

definition empty_as_failure :: "env \<Rightarrow> env" where
  "empty_as_failure env =
     env\<lparr>requests_get :=
           (\<lambda>url. case requests_get env url of
                    Inl e \<Rightarrow> Inl e
                  | Inr r \<Rightarrow>
                      if 400 \<le> status_code r \<and> status_code r < 600 then Inr r
                      else if resp_content r = []
                      then Inl (Exn (case resp_content_type r of None \<Rightarrow> [] | Some t \<Rightarrow> t))
                      else Inr r)\<rparr>"

text \<open>A result of \<open>fetch_resource\<close> with \<open>None\<close> in the place of an empty payload.\<close>

definition drop_empty :: "string \<times> bytes option \<times> string \<Rightarrow> string \<times> bytes option \<times> string" where
  "drop_empty result =
     (case result of (url, content, content_type) \<Rightarrow>
        (url, (if content = Some [] then None else content), content_type))"

text \<open>
  An example environment for the closed statements: the site \<open>https://ex.com\<close> serves
  \<open>/a.png\<close> (three bytes, \<open>image/png\<close>) and \<open>/empty.png\<close> (no bytes) and answers 404
  elsewhere. \<open>urljoin\<close>, \<open>urlparse\<close> and \<open>md5\<close> have the values of CPython on the inputs
  the statements use: a relative file name joined to the base \<open>https://ex.com\<close>, the
  reference \<^verbatim>\<open>//[\<close>, for which \<open>urljoin\<close> raises \<open>ValueError\<close>, and the URLs
  \<open>https://ex.com/<name>\<close>. The engine of regular expressions answers from
  \<open>demo_matches\<close>: at a position where the text starts with one of the listed attributes
  or tags, the listed pattern matches exactly that text, with the listed groups, as
  \<open>re\<close> does whatever follows; the documents of the statements hold no other match of
  any pattern of the converter.
\<close>

definition demo_matches :: "(pattern \<times> string \<times> string \<times> string \<times> string \<times> string) list" where
  \<open>demo_matches =
     [(ImgSrc, ''<img src="//[">'', ''<img src='', [CHR 0x22], ''//['', ''">''),
      (ImgSrc, ''<img src="empty.png">'', ''<img src='', [CHR 0x22], ''empty.png'', ''">''),
      (Srcset, ''srcset="a.png 2x"'', ''a.png 2x'', [], [], []),
      (Srcset, ''srcset="a.png 1x, b.png 2x"'', ''a.png 1x, b.png 2x'', [], [], []),
      (Srcset, ''srcset="data:image/png;base64,QUJD 2x"'',
         ''data:image/png;base64,QUJD 2x'', [], [], []),
      (StyleUrl, ''style="background:url(bg.png)"'',
         ''style="background:url('', ''bg.png'', '')"'', [])]\<close>

fun demo_match :: "(pattern \<times> string \<times> string \<times> string \<times> string \<times> string) list \<Rightarrow> pattern \<Rightarrow> matcher" where
  "demo_match [] p s = None"
| "demo_match ((p', text, groups) # entries) p s =
     (if p' = p \<and> startswith s text then Some (length text, groups)
      else demo_match entries p s)"

definition demo_env :: env where
  "demo_env =
     \<lparr>REQUESTS_AVAILABLE = True,
      requests_get =
        (\<lambda>url. if url = ''https://ex.com/a.png''
               then Inr \<lparr>status_code = 200, resp_content = ''ABC'',
                         resp_content_type = Some ''image/png''\<rparr>
               else if url = ''https://ex.com/empty.png''
               then Inr \<lparr>status_code = 200, resp_content = [],
                         resp_content_type = Some ''image/png''\<rparr>
               else Inr \<lparr>status_code = 404, resp_content = ''Not Found'',
                         resp_content_type = Some ''text/html''\<rparr>),
      http_error_text = (\<lambda>url r. ''404 Client Error: Not Found for url: '' @ url),
      urljoin = (\<lambda>base_url url. if url = ''//['' then Inl (Exn ''Invalid IPv6 URL'')
                              else Inr (base_url @ ''/'' @ url)),
      urlparse = (\<lambda>url. Inr \<lparr>netloc = ''ex.com'', url_path = drop 14 url\<rparr>),
      md5 = (\<lambda>data. if data = ''https://ex.com/a.png''
                   then 0xc98b0c87944d062e1bacda2032deb838
                   else 0x8bc2eca855cfd47a8d4a8db68cb4be1b),
      decode_css = (\<lambda>data. data),
      re_match = demo_match demo_matches,
      re_escape = (\<lambda>s. s),
      re_template = (\<lambda>template. Inr (\<lambda>m. template)),
      mkdir_error = (\<lambda>path. None),
      write_error = (\<lambda>path data. None),
      set_iter = (\<lambda>hrefs. hrefs),
      as_completed = (\<lambda>hrefs. hrefs),
      now_watermark = ''01.01.2026 12:00'',
      now_meta = ''2026-01-01 12:00:00'',
      WATERMARK_HTML = (\<lambda>timestamp project_name. timestamp @ '' | '' @ project_name),
      meta_comment = (\<lambda>project_name created domain.
                        ''<!-- '' @ project_name @ '' '' @ created @ '' '' @ domain @ '' -->'')\<rparr>"

text \<open>A run of characters outside every match, as segments of a scan.\<close>

definition lits :: "string \<Rightarrow> seg list" where
  "lits s = map Lit s"

text \<open>
  The document that the conversion of \<^verbatim>\<open><img srcset="a.png 2x">\<close> returns in \<open>embed\<close> mode
  in the example environment, and the image tag that a second conversion makes of it.
\<close>

definition embedded_doc :: string where
  \<open>embedded_doc =
     ''<!-- Preview 2026-01-01 12:00:00 ex.com -->'' @ scroll_fix_css
     @ ''<img srcset="data:image/png;base64,QUJD 2x">''\<close>

definition reembedded_doc :: string where
  \<open>reembedded_doc =
     ''<!-- Preview 2026-01-01 12:00:00 ex.com -->'' @ scroll_fix_css
     @ ''<img srcset="data:image/png;base64, QUJD 2x">''\<close>

section \<open>Properties of the string functions\<close>

lemma lower_Nil: "lower [] = []"
  by (simp add: lower_def)

lemma lower_length: "length (lower s) = length s"
  by (simp add: lower_def)

lemma lower_append: "lower (a @ b) = lower a @ lower b"
  by (simp add: lower_def)

lemma lower_eq_Nil: "lower a = lower b \<Longrightarrow> (a = []) = (b = [])"
  by (metis length_0_conv lower_length)

lemma startswith_iff: "startswith s p \<longleftrightarrow> (\<exists>b. s = p @ b)"
  unfolding startswith_def
  by (metis append_eq_conv_conj append_take_drop_id)

lemma isin_iff: "isin sub s \<longleftrightarrow> (\<exists>a b. s = a @ sub @ b)"
proof (induction s)
  case Nil
  then show ?case by auto
next
  case (Cons c cs)
  show ?case
  proof
    assume "isin sub (c # cs)"
    then consider "startswith (c # cs) sub" | "isin sub cs" by auto
    then show "\<exists>a b. c # cs = a @ sub @ b"
    proof cases
      case 1
      then obtain b where "c # cs = sub @ b" by (auto simp: startswith_iff)
      then have "c # cs = [] @ sub @ b" by simp
      then show ?thesis by blast
    next
      case 2
      then obtain a b where "cs = a @ sub @ b" using Cons.IH by auto
      then have "c # cs = (c # a) @ sub @ b" by simp
      then show ?thesis by blast
    qed
  next
    assume "\<exists>a b. c # cs = a @ sub @ b"
    then obtain a b where ab: "c # cs = a @ sub @ b" by blast
    show "isin sub (c # cs)"
    proof (cases a)
      case Nil
      with ab have "startswith (c # cs) sub" by (auto simp: startswith_iff)
      then show ?thesis by simp
    next
      case (Cons x a')
      with ab have "cs = a' @ sub @ b" by simp
      then have "isin sub cs" using Cons.IH by blast
      then show ?thesis by simp
    qed
  qed
qed

section \<open>Properties of the MIME resolver\<close>



lemma get_mime_type_case:
  assumes "lower u1 = lower u2" and "lower c1 = lower c2"
  shows "get_mime_type u1 c1 = get_mime_type u2 c2
         \<or> (get_mime_type u1 c1 = c1 \<and> get_mime_type u2 c2 = c2)"
  using assms lower_eq_Nil [OF assms(2)]
  by (simp add: get_mime_type_def Let_def lower_Nil)

lemma lower_literals:
  "lower ''.jpg'' = ''.jpg''" "lower ''.jpeg'' = ''.jpeg''" "lower ''?'' = ''?''"
  by (simp_all add: lower_def lower_char_def is_upper_def)

lemma get_mime_type_jpg_core:
  assumes "isin ''.jpg'' (lower U) \<or> isin ''.jpeg'' (lower U)"
    and "isin ''.jpg'' (lower V) \<or> isin ''.jpeg'' (lower V)"
    and "\<not> endswith (lower V) ''.css''" and "\<not> endswith (lower V) ''.js''"
    and "\<not> endswith (lower V) ''.png''"
  shows "get_mime_type U c = get_mime_type V c
         \<or> get_mime_type U c \<in> {''text/css'', ''application/javascript'', ''image/png''}"
proof -
  let ?ct = "if c = [] then [] else lower c"
  have U: "get_mime_type U c =
      (if isin ''css'' ?ct \<or> endswith (lower U) ''.css'' then ''text/css''
       else if isin ''javascript'' ?ct \<or> endswith (lower U) ''.js''
         then ''application/javascript''
       else if isin ''png'' ?ct \<or> endswith (lower U) ''.png'' then ''image/png''
       else ''image/jpeg'')"
    using assms(1) by (simp add: get_mime_type_def Let_def)
  have V: "get_mime_type V c =
      (if isin ''css'' ?ct then ''text/css''
       else if isin ''javascript'' ?ct then ''application/javascript''
       else if isin ''png'' ?ct then ''image/png''
       else ''image/jpeg'')"
    using assms(2-5) by (simp add: get_mime_type_def Let_def)
  show ?thesis
    unfolding U V by simp
qed

lemma get_mime_type_jpg_query:
  assumes "e = ''.jpg'' \<or> e = ''.jpeg''"
  shows "get_mime_type (p @ e @ ''?'' @ q) c = get_mime_type (p @ e) c
         \<or> get_mime_type (p @ e @ ''?'' @ q) c
             \<in> {''text/css'', ''application/javascript'', ''image/png''}"
proof -
  have le: "lower e = e"
    using assms lower_literals by auto
  have "lower (p @ e @ ''?'' @ q) = lower p @ e @ lower (''?'' @ q)"
    by (simp add: lower_append le)
  then have 1: "isin e (lower (p @ e @ ''?'' @ q))"
    unfolding isin_iff by blast
  have "lower (p @ e) = lower p @ e @ []"
    by (simp add: lower_append le)
  then have 2: "isin e (lower (p @ e))"
    unfolding isin_iff by blast
  have 3: "\<not> endswith (lower (p @ e)) ''.css''" "\<not> endswith (lower (p @ e)) ''.js''"
    "\<not> endswith (lower (p @ e)) ''.png''"
    using assms by (auto simp: endswith_def lower_append lower_length le)
  have j1: "isin ''.jpg'' (lower (p @ e @ ''?'' @ q)) \<or> isin ''.jpeg'' (lower (p @ e @ ''?'' @ q))"
    using assms 1 by blast
  have j2: "isin ''.jpg'' (lower (p @ e)) \<or> isin ''.jpeg'' (lower (p @ e))"
    using assms 2 by blast
  show ?thesis
    by (rule get_mime_type_jpg_core [OF j1 j2 3])
qed

text \<open>
  The matching is case-insensitive in the URL and in the content type: two calls whose
  URLs and content types agree up to the case of letters give the same MIME type, or
  both fall back to their own content type verbatim. The test for \<open>.jpg\<close> and \<open>.jpeg\<close>, a
  substring test, accepts a URL that goes on with a query string: it is classified like
  the URL without the query unless the content type or the end of the query makes one of
  the three earlier rules (css, javascript, png) fire.
\<close>

lemma get_mime_type_case_insensitive:
  "(lower u1 = lower u2 \<and> lower c1 = lower c2 \<longrightarrow>
      get_mime_type u1 c1 = get_mime_type u2 c2
      \<or> (get_mime_type u1 c1 = c1 \<and> get_mime_type u2 c2 = c2))
   \<and> (e = ''.jpg'' \<or> e = ''.jpeg'' \<longrightarrow>
      get_mime_type (p @ e @ ''?'' @ q) c = get_mime_type (p @ e) c
      \<or> get_mime_type (p @ e @ ''?'' @ q) c
          \<in> {''text/css'', ''application/javascript'', ''image/png''})"
  using get_mime_type_case [of u1 u2 c1 c2] get_mime_type_jpg_query [of e p q c]
  by blast

lemma get_mime_type_case_insensitive_example:
  "lower ''Logo.PNG'' = lower ''logo.png'' \<and> lower ''Image/PNG'' = lower ''image/png''
   \<and> get_mime_type ''Logo.PNG'' ''Image/PNG'' = get_mime_type ''logo.png'' ''image/png''
   \<and> get_mime_type ''a.jpg?w=100'' [] = get_mime_type ''a.jpg'' []"
proof -
  have l: "lower ''Logo.PNG'' = lower ''logo.png'' \<and> lower ''Image/PNG'' = lower ''image/png''"
    by code_simp
  have v1: "get_mime_type ''Logo.PNG'' ''Image/PNG'' \<noteq> ''Image/PNG''"
    by code_simp
  have v2: "get_mime_type ''a.jpg?w=100'' [] = ''image/jpeg''"
    by code_simp
  have q: "''a.jpg?w=100'' = ''a'' @ ''.jpg'' @ ''?'' @ ''w=100''" "''a.jpg'' = ''a'' @ ''.jpg''"
    by simp_all
  have "get_mime_type ''Logo.PNG'' ''Image/PNG'' = get_mime_type ''logo.png'' ''image/png''"
    using l v1
      get_mime_type_case_insensitive
        [of "''Logo.PNG''" "''logo.png''" "''Image/PNG''" "''image/png''" "''.jpg''" "''a''"
            "''w=100''" "[]"]
    by blast
  moreover have "get_mime_type ''a.jpg?w=100'' [] = get_mime_type ''a.jpg'' []"
    using v2
      get_mime_type_case_insensitive
        [of "''Logo.PNG''" "''logo.png''" "''Image/PNG''" "''image/png''" "''.jpg''" "''a''"
            "''w=100''" "[]"]
    unfolding q [symmetric] by auto
  ultimately show ?thesis
    using l by blast
qed

text \<open>
  C8, on the code. The extension tests for css, js, png, gif, svg, webp, ico, woff2,
  woff, ttf and eot are suffix tests on the whole URL and cut no query string off: a URL
  of the form \<open><path>.<ext>?<query>\<close> whose content type names no type falls through to
  the content type or to \<open>application/octet-stream\<close>, while the same URL without the
  query is classified by its extension. The test for \<open>.jpg\<close> and \<open>.jpeg\<close> in the same
  chain accepts the query.
\<close>

theorem get_mime_type_query_string:
  "get_mime_type ''style.css?v=1'' [] = ''application/octet-stream''
   \<and> get_mime_type ''style.css'' [] = ''text/css''
   \<and> get_mime_type ''logo.png?v=2'' ''application/octet-stream'' = ''application/octet-stream''
   \<and> get_mime_type ''logo.png'' ''application/octet-stream'' = ''image/png''
   \<and> get_mime_type ''font.woff2?v=4.7.0'' [] = ''application/octet-stream''
   \<and> get_mime_type ''font.woff2'' [] = ''font/woff2''
   \<and> get_mime_type ''photo.jpg?v=2'' [] = ''image/jpeg''
   \<and> get_mime_type ''photo.jpg'' [] = ''image/jpeg''"
  by code_simp

section \<open>Properties of the asset store\<close>

lemma hexdigest_length: "length (hexdigest w) = 32"
  by (simp add: hexdigest_def)

lemma split_on_not_Nil: "split_on sep s \<noteq> []"
  by (induction s) (auto split: list.splits)

lemma split_on_no_sep: "sep \<notin> set s \<Longrightarrow> split_on sep s = [s]"
  by (induction s) auto

lemma split_on_append:
  "split_on sep (x @ sep # y) = split_on sep x @ split_on sep y"
proof (induction x)
  case Nil
  show ?case by simp
next
  case (Cons c x)
  obtain w ws where w: "split_on sep x = w # ws"
    using split_on_not_Nil [of sep x] by (cases "split_on sep x") auto
  show ?case
    using Cons w by simp
qed

lemma takeWhile_no_sep: "sep \<notin> set s \<Longrightarrow> takeWhile (\<lambda>c. c \<noteq> sep) s = s"
  by (induction s) auto

lemma hd_split_on: "hd (split_on sep s) = takeWhile (\<lambda>c. c \<noteq> sep) s"
proof (cases "sep \<in> set s")
  case False
  then show ?thesis
    by (simp add: split_on_no_sep takeWhile_no_sep)
next
  case True
  then obtain x y where s: "s = x @ sep # y" and x: "sep \<notin> set x"
    by (auto dest: split_list_first)
  have "takeWhile (\<lambda>c. c \<noteq> sep) (x @ sep # y) = x"
    using x by (induction x) auto
  then show ?thesis
    using x by (simp add: s split_on_append split_on_no_sep)
qed

lemma last_split_on: "last (split_on sep s) = rev (takeWhile (\<lambda>c. c \<noteq> sep) (rev s))"
proof (cases "sep \<in> set s")
  case False
  then show ?thesis
    by (simp add: split_on_no_sep takeWhile_no_sep)
next
  case True
  then obtain x y where s: "s = x @ sep # y" and y: "sep \<notin> set y"
    by (auto dest: split_list_last)
  have "takeWhile (\<lambda>c. c \<noteq> sep) (rev y @ sep # rev x) = rev y"
    using y by (induction y rule: rev_induct) auto
  then show ?thesis
    using y by (simp add: s split_on_append split_on_no_sep)
qed

lemma bounded_extension_length: "length (bounded_extension segment) \<le> 11"
  by (simp add: bounded_extension_def)

lemma code_extension:
  "(let path_parts = split_on CHR ''/'' p;
        original_name = (if last path_parts = [] then ''asset'' else last path_parts)
    in if CHR ''.'' \<in> set original_name
       then ''.'' @ take 10 (hd (split_on CHR ''?'' (last (split_on CHR ''.'' original_name))))
       else [])
   = bounded_extension (final_segment p)"
  by (simp add: Let_def last_split_on hd_split_on bounded_extension_def final_segment_def)

text \<open>
  C6. The path that \<open>save_asset_to_file\<close> returns is the asset folder, the category and a
  file name made of two parts: the first 12 hexadecimal digits of the MD5 digest of the
  URL, and the extension that the final segment of the path of the URL gives, which is
  empty when the segment has no dot and otherwise the dot and at most 10 characters of
  what follows the last dot (at most 11 characters in all). The payload plays no part in
  it: any other call for the same URL that returns gives the same path.
\<close>

theorem save_asset_filename:
  assumes "save_asset_to_file env content url assets_folder asset_type st = Inr (path, st')"
  shows "\<exists>parsed. urlparse env url = Inr parsed
           \<and> path = assets_folder @ ''/'' @ asset_type @ ''/''
                     @ take 12 (hexdigest (md5 env (utf8_encode url)))
                     @ bounded_extension (final_segment (url_path parsed))
           \<and> length (take 12 (hexdigest (md5 env (utf8_encode url)))) = 12
           \<and> length (bounded_extension (final_segment (url_path parsed))) \<le> 11
           \<and> (\<forall>content2 st2 path2 st2'.
                 save_asset_to_file env content2 url assets_folder asset_type st2
                   = Inr (path2, st2')
                 \<longrightarrow> path2 = path)"
proof -
  obtain parsed where p: "urlparse env url = Inr parsed"
    using assms by (cases "urlparse env url") (simp_all add: save_asset_to_file_def)
  have path_of: "path2 = assets_folder @ ''/'' @ asset_type @ ''/''
                   @ take 12 (hexdigest (md5 env (utf8_encode url)))
                   @ bounded_extension (final_segment (url_path parsed))"
    if "save_asset_to_file env content2 url assets_folder asset_type st2 = Inr (path2, st2')"
    for content2 st2 path2 st2'
    using that p code_extension [of "url_path parsed"]
    by (auto simp: save_asset_to_file_def Let_def split: option.splits)
  show ?thesis
    using p path_of [OF assms] path_of
    by (auto simp: hexdigest_length bounded_extension_length)
qed

lemma save_asset_demo:
  "save_asset_to_file demo_env content ''https://ex.com/a.png'' ''page_assets'' ''images'' st
   = Inr (''page_assets/images/c98b0c87944d.png'',
          st\<lparr>files_written := files_written st
                  @ [(''page_assets/images/c98b0c87944d.png'', content)]\<rparr>)"
  by (simp add: save_asset_to_file_def demo_env_def utf8_encode_def hexdigest_def hex_digit_def
      Let_def upt_rec)

theorem save_asset_filename_witness:
  "save_asset_to_file demo_env ''ABC'' ''https://ex.com/a.png'' ''page_assets'' ''images''
     (initial_state [] ''https://ex.com'')
   = Inr (''page_assets/images/c98b0c87944d.png'',
          (initial_state [] ''https://ex.com'')
            \<lparr>files_written := [(''page_assets/images/c98b0c87944d.png'', ''ABC'')]\<rparr>)
   \<and> urlparse demo_env ''https://ex.com/a.png'' = Inr \<lparr>netloc = ''ex.com'', url_path = ''/a.png''\<rparr>
   \<and> final_segment ''/a.png'' = ''a.png''
   \<and> bounded_extension ''a.png'' = ''.png''
   \<and> ''page_assets/images/c98b0c87944d.png''
       = ''page_assets'' @ ''/'' @ ''images'' @ ''/''
         @ take 12 (hexdigest (md5 demo_env (utf8_encode ''https://ex.com/a.png'')))
         @ bounded_extension (final_segment ''/a.png'')
   \<and> map_sum id fst
        (save_asset_to_file demo_env ''another payload'' ''https://ex.com/a.png''
           ''page_assets'' ''images'' (initial_state [] ''https://ex.com''))
      = Inr ''page_assets/images/c98b0c87944d.png''"
proof -
  have h: "save_asset_to_file demo_env ''ABC'' ''https://ex.com/a.png'' ''page_assets''
             ''images'' (initial_state [] ''https://ex.com'')
           = Inr (''page_assets/images/c98b0c87944d.png'',
                  (initial_state [] ''https://ex.com'')
                    \<lparr>files_written := [(''page_assets/images/c98b0c87944d.png'', ''ABC'')]\<rparr>)"
    by (simp add: save_asset_demo initial_state_def)
  have u: "urlparse demo_env ''https://ex.com/a.png''
           = Inr \<lparr>netloc = ''ex.com'', url_path = ''/a.png''\<rparr>"
    by (simp add: demo_env_def)
  have e: "final_segment ''/a.png'' = ''a.png''" "bounded_extension ''a.png'' = ''.png''"
    by (simp_all add: final_segment_def bounded_extension_def)
  obtain path2 st2 where
    h2: "save_asset_to_file demo_env ''another payload'' ''https://ex.com/a.png''
           ''page_assets'' ''images'' (initial_state [] ''https://ex.com'') = Inr (path2, st2)"
    by (simp add: save_asset_demo)
  have p2: "path2 = ''page_assets/images/c98b0c87944d.png''"
    using save_asset_filename [OF h] h2 by blast
  have eq: "''page_assets/images/c98b0c87944d.png''
       = ''page_assets'' @ ''/'' @ ''images'' @ ''/''
         @ take 12 (hexdigest (md5 demo_env (utf8_encode ''https://ex.com/a.png'')))
         @ bounded_extension (final_segment ''/a.png'')"
    using save_asset_filename [OF h] u by auto
  show ?thesis
    using h u e eq h2 p2 by simp
qed

section \<open>Hotlink mode\<close>

text \<open>
  C2. In \<open>hotlink\<close> mode the document returned is the input after the script and handler
  stripping (when \<open>remove_scripts\<close> is set), the lazy-load normalisation and the three
  injections, and nothing else: the five resource passes are skipped. The state returned
  is the initial one with the final size: no call of \<open>fetch_resource\<close>, no file written,
  every counter at zero and no error record.
\<close>

theorem hotlink_purity:
  "create_standalone_html env html base_url project_name include_watermark remove_scripts
     max_workers ''hotlink'' assets_folder =
   bind_exn (if include_watermark
             then add_watermark env project_name
                    (scroll_fix env (normalize_lazy env
                       (if remove_scripts then strip_scripts env html else html)))
             else Inr (scroll_fix env (normalize_lazy env
                         (if remove_scripts then strip_scripts env html else html))))
     (\<lambda>html9. bind_exn (add_meta_comment env project_name base_url html9)
        (\<lambda>html10. Inr (html10,
           \<lparr>stylesheets_inlined = 0, images_inlined = 0, fonts_inlined = 0,
            assets_downloaded = 0, total_size_before = length html, resources_failed = 0,
            source_url = base_url, total_size_after = Some (length html10), errors = [],
            fetch_calls = [], files_written = []\<rparr>)))"
  by (auto simp: create_standalone_html_def initial_state_def bind_exn_def Let_def
           split: sum.splits)

section \<open>A fetch that succeeds with an empty payload\<close>

lemma truthy_simps [simp]: "truthy None = False" "truthy (Some x) = (x \<noteq> [])"
  by (simp_all add: truthy_def)

lemma the_value_simps [simp]: "the_value None = []" "the_value (Some x) = x"
  by (simp_all add: the_value_def)

lemma fetch_resource_eaf:
  "fetch_resource (empty_as_failure env) url st =
     (case fetch_resource env url st of
        ((u, c, t), st') \<Rightarrow> ((u, (if c = Some [] then None else c), t), st'))"
  by (auto simp: fetch_resource_def empty_as_failure_def Let_def split: sum.splits option.splits)

lemma fetch_resource_eaf2:
  "fetch_resource (empty_as_failure env) url st =
     (drop_empty (fst (fetch_resource env url st)), snd (fetch_resource env url st))"
  by (auto simp: fetch_resource_eaf drop_empty_def split: prod.splits)

lemma eaf_fields [simp]:
  "urljoin (empty_as_failure env) = urljoin env"
  "urlparse (empty_as_failure env) = urlparse env"
  "md5 (empty_as_failure env) = md5 env"
  "decode_css (empty_as_failure env) = decode_css env"
  "re_match (empty_as_failure env) = re_match env"
  "re_escape (empty_as_failure env) = re_escape env"
  "re_template (empty_as_failure env) = re_template env"
  "mkdir_error (empty_as_failure env) = mkdir_error env"
  "write_error (empty_as_failure env) = write_error env"
  "set_iter (empty_as_failure env) = set_iter env"
  "as_completed (empty_as_failure env) = as_completed env"
  "now_watermark (empty_as_failure env) = now_watermark env"
  "now_meta (empty_as_failure env) = now_meta env"
  "WATERMARK_HTML (empty_as_failure env) = WATERMARK_HTML env"
  "meta_comment (empty_as_failure env) = meta_comment env"
  "REQUESTS_AVAILABLE (empty_as_failure env) = REQUESTS_AVAILABLE env"
  "http_error_text (empty_as_failure env) = http_error_text env"
  by (simp_all add: empty_as_failure_def)

lemma save_asset_eaf [simp]:
  "save_asset_to_file (empty_as_failure env) = save_asset_to_file env"
  by (intro ext) (auto simp: save_asset_to_file_def Let_def split: sum.splits option.splits)

lemma replace_image_eaf [simp]:
  "replace_image (empty_as_failure env) = replace_image env"
  by (intro ext)
     (auto simp: replace_image_def fetch_resource_eaf Let_def split: prod.splits sum.splits)

lemma replace_style_url_eaf [simp]:
  "replace_style_url (empty_as_failure env) = replace_style_url env"
  by (intro ext)
     (auto simp: replace_style_url_def fetch_resource_eaf Let_def split: prod.splits sum.splits)

lemma replace_url_eaf [simp]:
  "replace_url (empty_as_failure env) = replace_url env"
  by (intro ext)
     (auto simp: replace_url_def fetch_resource_eaf Let_def split: prod.splits sum.splits)


lemma srcset_loop_eaf:
  "srcset_loop (empty_as_failure env) base_url assets_mode assets_folder parts new st =
   srcset_loop env base_url assets_mode assets_folder parts new st"
proof (induction parts arbitrary: new st assets_mode assets_folder)
  case Nil
  show ?case by simp
next
  case (Cons raw rest)
  show ?case
    by (auto simp: fetch_resource_eaf Let_def Cons.IH split: list.splits sum.splits prod.splits)
qed

lemma source_loop_eaf:
  "source_loop (empty_as_failure env) base_url assets_mode assets_folder parts new st =
   source_loop env base_url assets_mode assets_folder parts new st"
proof (induction parts arbitrary: new st assets_mode assets_folder)
  case Nil
  show ?case by simp
next
  case (Cons raw rest)
  show ?case
    by (auto simp: fetch_resource_eaf Let_def Cons.IH split: list.splits sum.splits prod.splits)
qed

lemma replace_srcset_eaf [simp]:
  "replace_srcset (empty_as_failure env) = replace_srcset env"
  by (intro ext) (simp add: replace_srcset_def srcset_loop_eaf)

lemma replace_source_eaf [simp]:
  "replace_source (empty_as_failure env) = replace_source env"
  by (intro ext) (simp add: replace_source_def source_loop_eaf)

lemma inline_css_resources_eaf [simp]:
  "inline_css_resources (empty_as_failure env) = inline_css_resources env"
  by (intro ext) (simp add: inline_css_resources_def)

lemma passes_eaf [simp]:
  "image_pass (empty_as_failure env) = image_pass env"
  "srcset_pass (empty_as_failure env) = srcset_pass env"
  "style_url_pass (empty_as_failure env) = style_url_pass env"
  "source_pass (empty_as_failure env) = source_pass env"
  by (intro ext,
      simp add: image_pass_def srcset_pass_def style_url_pass_def source_pass_def
           cong: prod.case_cong if_cong)+

lemma steps_eaf [simp]:
  "strip_scripts (empty_as_failure env) = strip_scripts env"
  "normalize_lazy (empty_as_failure env) = normalize_lazy env"
  "scroll_fix (empty_as_failure env) = scroll_fix env"
  "add_watermark (empty_as_failure env) = add_watermark env"
  "add_meta_comment (empty_as_failure env) = add_meta_comment env"
  by (intro ext,
      simp add: strip_scripts_def normalize_lazy_def scroll_fix_def add_watermark_def
        add_meta_comment_def Let_def cong: sum.case_cong if_cong)+

lemma process_stylesheet_eaf [simp]:
  "process_stylesheet (empty_as_failure env) = process_stylesheet env"
  by (intro ext)
     (simp add: process_stylesheet_def Let_def cong: prod.case_cong sum.case_cong if_cong)

lemma process_stylesheet_drop_empty:
  "process_stylesheet env assets_mode assets_folder acc (href, drop_empty result) =
   process_stylesheet env assets_mode assets_folder acc (href, result)"
  by (cases acc; cases result) (auto simp: process_stylesheet_def drop_empty_def)

lemma submit_all_eaf:
  "submit_all (empty_as_failure env) base_url hrefs st =
     (case submit_all env base_url hrefs st of
        Inl e \<Rightarrow> Inl e
      | Inr (futures, st') \<Rightarrow> Inr (map (\<lambda>(href, result). (href, drop_empty result)) futures, st'))"
proof (induction hrefs arbitrary: st)
  case Nil
  show ?case by simp
next
  case (Cons href hrefs)
  show ?case
    by (auto simp: fetch_resource_eaf2 Cons.IH split: sum.splits prod.splits)
qed

lemma map_of_drop_empty:
  "map_of (map (\<lambda>(href, result). (href, drop_empty result)) futures) h =
   map_option drop_empty (map_of futures h)"
  by (induction futures) auto

lemma concat_lookup_drop_empty:
  "concat (map (\<lambda>href. case map_option drop_empty (m href) of
                           None \<Rightarrow> []
                         | Some result \<Rightarrow> [(href, result)]) hs) =
   map (\<lambda>(href, result). (href, drop_empty result))
     (concat (map (\<lambda>href. case m href of None \<Rightarrow> [] | Some result \<Rightarrow> [(href, result)]) hs))"
  by (induction hs) (auto split: option.splits)

lemma completed_drop_empty:
  "completed env (map (\<lambda>(href, result). (href, drop_empty result)) futures) =
   map (\<lambda>(href, result). (href, drop_empty result)) (completed env futures)"
proof -
  have f: "map fst (map (\<lambda>(href, result). (href, drop_empty result)) futures) = map fst futures"
    by (induction futures) auto
  show ?thesis
    unfolding completed_def f map_of_drop_empty
    by (rule concat_lookup_drop_empty)
qed

lemma completed_eaf [simp]: "completed (empty_as_failure env) = completed env"
  by (intro ext) (simp add: completed_def)

lemma foldl_process_drop_empty:
  "foldl (process_stylesheet env assets_mode assets_folder) acc
     (map (\<lambda>(href, result). (href, drop_empty result)) futures) =
   foldl (process_stylesheet env assets_mode assets_folder) acc futures"
  by (induction futures arbitrary: acc) (auto simp: process_stylesheet_drop_empty)

lemma stylesheet_pass_eaf [simp]:
  "stylesheet_pass (empty_as_failure env) = stylesheet_pass env"
  by (intro ext)
     (auto simp: stylesheet_pass_def Let_def submit_all_eaf completed_drop_empty
        foldl_process_drop_empty split: sum.splits prod.splits)








section \<open>Evaluation in the example environment\<close>

lemma char_of_letters:
  "char_of (65::nat) = CHR ''A''" "char_of (66::nat) = CHR ''B''" "char_of (67::nat) = CHR ''C''"
  "char_of (68::nat) = CHR ''D''" "char_of (69::nat) = CHR ''E''" "char_of (70::nat) = CHR ''F''"
  "char_of (71::nat) = CHR ''G''" "char_of (72::nat) = CHR ''H''" "char_of (73::nat) = CHR ''I''"
  "char_of (74::nat) = CHR ''J''" "char_of (75::nat) = CHR ''K''" "char_of (76::nat) = CHR ''L''"
  "char_of (77::nat) = CHR ''M''" "char_of (78::nat) = CHR ''N''" "char_of (79::nat) = CHR ''O''"
  "char_of (80::nat) = CHR ''P''" "char_of (81::nat) = CHR ''Q''" "char_of (82::nat) = CHR ''R''"
  "char_of (83::nat) = CHR ''S''" "char_of (84::nat) = CHR ''T''" "char_of (85::nat) = CHR ''U''"
  "char_of (86::nat) = CHR ''V''" "char_of (87::nat) = CHR ''W''" "char_of (88::nat) = CHR ''X''"
  "char_of (89::nat) = CHR ''Y''" "char_of (90::nat) = CHR ''Z''" "char_of (97::nat) = CHR ''a''"
  "char_of (98::nat) = CHR ''b''" "char_of (99::nat) = CHR ''c''" "char_of (100::nat) = CHR ''d''"
  "char_of (101::nat) = CHR ''e''" "char_of (102::nat) = CHR ''f''" "char_of (103::nat) = CHR ''g''"
  "char_of (104::nat) = CHR ''h''" "char_of (105::nat) = CHR ''i''" "char_of (106::nat) = CHR ''j''"
  "char_of (107::nat) = CHR ''k''" "char_of (108::nat) = CHR ''l''" "char_of (109::nat) = CHR ''m''"
  "char_of (110::nat) = CHR ''n''" "char_of (111::nat) = CHR ''o''" "char_of (112::nat) = CHR ''p''"
  "char_of (113::nat) = CHR ''q''" "char_of (114::nat) = CHR ''r''" "char_of (115::nat) = CHR ''s''"
  "char_of (116::nat) = CHR ''t''" "char_of (117::nat) = CHR ''u''" "char_of (118::nat) = CHR ''v''"
  "char_of (119::nat) = CHR ''w''" "char_of (120::nat) = CHR ''x''" "char_of (121::nat) = CHR ''y''"
  "char_of (122::nat) = CHR ''z''"
  by code_simp+

lemma startswith_eval:
  "startswith s [] = True"
  "startswith [] (p # ps) = False"
  "startswith (c # cs) (p # ps) = (if c = p then startswith cs ps else False)"
  by (simp_all add: startswith_def)

lemma demo_match_eval:
  "demo_match [] p s = None"
  "demo_match ((p', text, groups) # entries) p s =
     (if p' = p
      then (if startswith s text then Some (length text, groups) else demo_match entries p s)
      else demo_match entries p s)"
  by simp_all

lemma scan_no_match: "(\<And>t. mt t = None) \<Longrightarrow> scan mt s = map Lit s"
  by (induction s) simp_all

lemma sub_all_Lit: "sub_all repl (map Lit s) = s"
  by (induction s) simp_all

lemma sub_first_Lit: "sub_first repl (map Lit s) = s"
  by (induction s) simp_all

lemma sub_fn_Lit: "sub_fn repl (map Lit s) st = Inr (s, st)"
  by (induction s) simp_all

lemma findall_Lit: "findall (map Lit s) = []"
  by (induction s) simp_all

lemma sub_fn_lits:
  "sub_fn repl (lits xs @ segs) st =
     (case sub_fn repl segs st of Inl e \<Rightarrow> Inl e | Inr (out, st') \<Rightarrow> Inr (xs @ out, st'))"
  unfolding lits_def by (induction xs) (auto split: sum.splits)

lemma sub_fn_lits_end: "sub_fn repl (lits xs) st = Inr (xs, st)"
  unfolding lits_def by (induction xs) simp_all

lemma demo_fields:
  "REQUESTS_AVAILABLE demo_env"
  "requests_get demo_env url =
     (if url = ''https://ex.com/a.png''
      then Inr \<lparr>status_code = 200, resp_content = ''ABC'', resp_content_type = Some ''image/png''\<rparr>
      else if url = ''https://ex.com/empty.png''
      then Inr \<lparr>status_code = 200, resp_content = [], resp_content_type = Some ''image/png''\<rparr>
      else Inr \<lparr>status_code = 404, resp_content = ''Not Found'',
                resp_content_type = Some ''text/html''\<rparr>)"
  "http_error_text demo_env url r = ''404 Client Error: Not Found for url: '' @ url"
  "urljoin demo_env base_url ref =
     (if ref = ''//['' then Inl (Exn ''Invalid IPv6 URL'') else Inr (base_url @ ''/'' @ ref))"
  "urlparse demo_env url = Inr \<lparr>netloc = ''ex.com'', url_path = drop 14 url\<rparr>"
  "re_match demo_env = demo_match demo_matches"
  "re_template demo_env template = Inr (\<lambda>m. template)"
  "mkdir_error demo_env path = None"
  "write_error demo_env path content = None"
  "now_meta demo_env = ''2026-01-01 12:00:00''"
  "meta_comment demo_env project_name created domain =
     ''<!-- '' @ project_name @ '' '' @ created @ '' '' @ domain @ '' -->''"
  by (simp_all add: demo_env_def)

lemma demo_scan_other:
  "p \<noteq> ImgSrc \<Longrightarrow> p \<noteq> Srcset \<Longrightarrow> p \<noteq> StyleUrl \<Longrightarrow>
   scan (re_match demo_env p) s = map Lit s"
  by (rule scan_no_match) (simp add: demo_env_def demo_matches_def)

lemma demo_steps:
  "strip_scripts demo_env s = s" "normalize_lazy demo_env s = s"
  "0 < max_workers \<Longrightarrow>
   stylesheet_pass demo_env base_url max_workers assets_mode assets_folder acc = Inr acc"
  "source_pass demo_env base_url assets_mode assets_folder acc = Inr acc"
  "scroll_fix demo_env s =
     (if isin ''</head>'' (lower s) \<or> isin ''<body'' (lower s) then s else scroll_fix_css @ s)"
  by (simp_all add: strip_scripts_def normalize_lazy_def lazy_attrs_def stylesheet_pass_def
        stylesheet_patterns_def source_pass_def scroll_fix_def demo_scan_other sub_all_Lit
        sub_first_Lit sub_fn_Lit findall_Lit split: prod.splits)

lemma demo_meta:
  "add_meta_comment demo_env project_name ''https://ex.com'' s =
     (if isin ''<!DOCTYPE'' (upper s)
      then Inr s
      else Inr (''<!-- '' @ project_name @ '' 2026-01-01 12:00:00 ex.com -->'' @ s))"
  by (simp add: add_meta_comment_def demo_fields(5,7,10,11) demo_scan_other sub_first_Lit)

lemmas eval_simps =
  lower_def upper_def lower_char_def upper_char_def is_upper_def char_of_letters
  startswith_def endswith_def is_space_def strip_def b64_char_def truthy_def the_value_def
  demo_fields demo_matches_def fetch_resource_def get_mime_type_def initial_state_def
  scroll_fix_css_def demo_steps demo_meta bind_exn_def Let_def
  image_pass_def srcset_pass_def style_url_pass_def create_standalone_html_def

text \<open>
  The comment and the style block that a conversion injects hold no match of the three
  patterns of the example environment and none of the markers the injections look for.
\<close>

lemma demo_scan_chunk1:
  \<open>p = ImgSrc \<or> p = Srcset \<or> p = StyleUrl \<Longrightarrow>
   scan (demo_match demo_matches p) (''<!-- Preview 2026-01-01 12:00:00 ex.com '' @ ys)
   = lits ''<!-- Preview 2026-01-01 12:00:00 ex.com '' @ scan (demo_match demo_matches p) ys\<close>
  by (elim disjE)
     (simp_all add: lits_def demo_matches_def startswith_eval demo_match_eval
           del: demo_match.simps(2))

lemma demo_isin_chunk1:
  \<open>isin ''</head>'' (lower (''<!-- Preview 2026-01-01 12:00:00 ex.com '' @ ys)) = isin ''</head>'' (lower ys)\<close>
  \<open>isin ''<body'' (lower (''<!-- Preview 2026-01-01 12:00:00 ex.com '' @ ys)) = isin ''<body'' (lower ys)\<close>
  \<open>isin ''<!DOCTYPE'' (upper (''<!-- Preview 2026-01-01 12:00:00 ex.com '' @ ys)) = isin ''<!DOCTYPE'' (upper ys)\<close>
  by (simp_all add: lower_def upper_def lower_char_def upper_char_def is_upper_def
        char_of_letters startswith_eval)

lemma demo_scan_chunk2:
  \<open>p = ImgSrc \<or> p = Srcset \<or> p = StyleUrl \<Longrightarrow>
   scan (demo_match demo_matches p) (''-->'' @ ys)
   = lits ''-->'' @ scan (demo_match demo_matches p) ys\<close>
  by (elim disjE)
     (simp_all add: lits_def demo_matches_def startswith_eval demo_match_eval
           del: demo_match.simps(2))

lemma demo_isin_chunk2:
  \<open>isin ''</head>'' (lower (''-->'' @ ys)) = isin ''</head>'' (lower ys)\<close>
  \<open>isin ''<body'' (lower (''-->'' @ ys)) = isin ''<body'' (lower ys)\<close>
  \<open>isin ''<!DOCTYPE'' (upper (''-->'' @ ys)) = isin ''<!DOCTYPE'' (upper ys)\<close>
  by (simp_all add: lower_def upper_def lower_char_def upper_char_def is_upper_def
        char_of_letters startswith_eval)

lemma demo_scan_chunk3:
  \<open>p = ImgSrc \<or> p = Srcset \<or> p = StyleUrl \<Longrightarrow>
   scan (demo_match demo_matches p) (''<style id="standalone-scroll-fix">html, '' @ ys)
   = lits ''<style id="standalone-scroll-fix">html, '' @ scan (demo_match demo_matches p) ys\<close>
  by (elim disjE)
     (simp_all add: lits_def demo_matches_def startswith_eval demo_match_eval
           del: demo_match.simps(2))

lemma demo_isin_chunk3:
  \<open>isin ''</head>'' (lower (''<style id="standalone-scroll-fix">html, '' @ ys)) = isin ''</head>'' (lower ys)\<close>
  \<open>isin ''<body'' (lower (''<style id="standalone-scroll-fix">html, '' @ ys)) = isin ''<body'' (lower ys)\<close>
  \<open>isin ''<!DOCTYPE'' (upper (''<style id="standalone-scroll-fix">html, '' @ ys)) = isin ''<!DOCTYPE'' (upper ys)\<close>
  by (simp_all add: lower_def upper_def lower_char_def upper_char_def is_upper_def
        char_of_letters startswith_eval)

lemma demo_scan_chunk4:
  \<open>p = ImgSrc \<or> p = Srcset \<or> p = StyleUrl \<Longrightarrow>
   scan (demo_match demo_matches p) (''body { overflow: auto !important; overfl'' @ ys)
   = lits ''body { overflow: auto !important; overfl'' @ scan (demo_match demo_matches p) ys\<close>
  by (elim disjE)
     (simp_all add: lits_def demo_matches_def startswith_eval demo_match_eval
           del: demo_match.simps(2))

lemma demo_isin_chunk4:
  \<open>isin ''</head>'' (lower (''body { overflow: auto !important; overfl'' @ ys)) = isin ''</head>'' (lower ys)\<close>
  \<open>isin ''<body'' (lower (''body { overflow: auto !important; overfl'' @ ys)) = isin ''<body'' (lower ys)\<close>
  \<open>isin ''<!DOCTYPE'' (upper (''body { overflow: auto !important; overfl'' @ ys)) = isin ''<!DOCTYPE'' (upper ys)\<close>
  by (simp_all add: lower_def upper_def lower_char_def upper_char_def is_upper_def
        char_of_letters startswith_eval)

lemma demo_scan_chunk5:
  \<open>p = ImgSrc \<or> p = Srcset \<or> p = StyleUrl \<Longrightarrow>
   scan (demo_match demo_matches p) (''ow-x: hidden !important; height: auto !i'' @ ys)
   = lits ''ow-x: hidden !important; height: auto !i'' @ scan (demo_match demo_matches p) ys\<close>
  by (elim disjE)
     (simp_all add: lits_def demo_matches_def startswith_eval demo_match_eval
           del: demo_match.simps(2))

lemma demo_isin_chunk5:
  \<open>isin ''</head>'' (lower (''ow-x: hidden !important; height: auto !i'' @ ys)) = isin ''</head>'' (lower ys)\<close>
  \<open>isin ''<body'' (lower (''ow-x: hidden !important; height: auto !i'' @ ys)) = isin ''<body'' (lower ys)\<close>
  \<open>isin ''<!DOCTYPE'' (upper (''ow-x: hidden !important; height: auto !i'' @ ys)) = isin ''<!DOCTYPE'' (upper ys)\<close>
  by (simp_all add: lower_def upper_def lower_char_def upper_char_def is_upper_def
        char_of_letters startswith_eval)

lemma demo_scan_chunk6:
  \<open>p = ImgSrc \<or> p = Srcset \<or> p = StyleUrl \<Longrightarrow>
   scan (demo_match demo_matches p) (''mportant; max-height: none !important; p'' @ ys)
   = lits ''mportant; max-height: none !important; p'' @ scan (demo_match demo_matches p) ys\<close>
  by (elim disjE)
     (simp_all add: lits_def demo_matches_def startswith_eval demo_match_eval
           del: demo_match.simps(2))

lemma demo_isin_chunk6:
  \<open>isin ''</head>'' (lower (''mportant; max-height: none !important; p'' @ ys)) = isin ''</head>'' (lower ys)\<close>
  \<open>isin ''<body'' (lower (''mportant; max-height: none !important; p'' @ ys)) = isin ''<body'' (lower ys)\<close>
  \<open>isin ''<!DOCTYPE'' (upper (''mportant; max-height: none !important; p'' @ ys)) = isin ''<!DOCTYPE'' (upper ys)\<close>
  by (simp_all add: lower_def upper_def lower_char_def upper_char_def is_upper_def
        char_of_letters startswith_eval)

lemma demo_scan_chunk7:
  \<open>p = ImgSrc \<or> p = Srcset \<or> p = StyleUrl \<Longrightarrow>
   scan (demo_match demo_matches p) (''osition: static !important; }</style>'' @ ys)
   = lits ''osition: static !important; }</style>'' @ scan (demo_match demo_matches p) ys\<close>
  by (elim disjE)
     (simp_all add: lits_def demo_matches_def startswith_eval demo_match_eval
           del: demo_match.simps(2))

lemma demo_isin_chunk7:
  \<open>isin ''</head>'' (lower (''osition: static !important; }</style>'' @ ys)) = isin ''</head>'' (lower ys)\<close>
  \<open>isin ''<body'' (lower (''osition: static !important; }</style>'' @ ys)) = isin ''<body'' (lower ys)\<close>
  \<open>isin ''<!DOCTYPE'' (upper (''osition: static !important; }</style>'' @ ys)) = isin ''<!DOCTYPE'' (upper ys)\<close>
  by (simp_all add: lower_def upper_def lower_char_def upper_char_def is_upper_def
        char_of_letters startswith_eval)

lemmas demo_chunks =
  demo_scan_chunk1 [simplified]
  demo_scan_chunk2 [simplified]
  demo_scan_chunk3 [simplified]
  demo_scan_chunk4 [simplified]
  demo_scan_chunk5 [simplified]
  demo_scan_chunk6 [simplified]
  demo_scan_chunk7 [simplified]
  demo_isin_chunk1 [simplified]
  demo_isin_chunk2 [simplified]
  demo_isin_chunk3 [simplified]
  demo_isin_chunk4 [simplified]
  demo_isin_chunk5 [simplified]
  demo_isin_chunk6 [simplified]
  demo_isin_chunk7 [simplified]

lemma scroll_fix_css_chunks:
  \<open>scroll_fix_css = ''<style id="standalone-scroll-fix">html, ''
     @ ''body { overflow: auto !important; overfl''
     @ ''ow-x: hidden !important; height: auto !i''
     @ ''mportant; max-height: none !important; p''
     @ ''osition: static !important; }</style>''\<close>
  by (simp add: scroll_fix_css_def)

lemma embedded_doc_scans:
  \<open>scan (demo_match demo_matches ImgSrc) embedded_doc = lits embedded_doc\<close>
  \<open>scan (demo_match demo_matches Srcset) embedded_doc =
   lits (''<!-- Preview 2026-01-01 12:00:00 ex.com -->'' @ scroll_fix_css @ ''<img '')
   @ [Mat \<lparr>g0 = ''srcset="data:image/png;base64,QUJD 2x"'',
            g1 = ''data:image/png;base64,QUJD 2x'', g2 = [], g3 = [], g4 = []\<rparr>]
   @ lits ''>''\<close>
  \<open>scan (demo_match demo_matches StyleUrl) reembedded_doc = lits reembedded_doc\<close>
  by (simp_all add: embedded_doc_def reembedded_doc_def scroll_fix_css_chunks demo_chunks)
     (simp_all add: lits_def demo_matches_def startswith_eval demo_match_eval
           del: demo_match.simps(2))

lemma reembedded_doc_isin:
  "isin ''</head>'' (lower reembedded_doc) = False"
  "isin ''<body'' (lower reembedded_doc) = False"
  "isin ''<!DOCTYPE'' (upper (scroll_fix_css @ reembedded_doc)) = False"
  by (simp_all add: reembedded_doc_def scroll_fix_css_chunks demo_chunks)
     (simp_all add: lower_def upper_def lower_char_def upper_char_def is_upper_def
        char_of_letters startswith_eval)

lemma doc_lengths: "length embedded_doc = 284" "length reembedded_doc = 285"
  by (simp_all add: embedded_doc_def reembedded_doc_def scroll_fix_css_def)

lemma rerun_srcset:
  \<open>replace_srcset demo_env ''https://ex.com'' ''embed'' None
     \<lparr>g0 = ''srcset="data:image/png;base64,QUJD 2x"'',
      g1 = ''data:image/png;base64,QUJD 2x'', g2 = [], g3 = [], g4 = []\<rparr> st
   = Inr (''srcset="data:image/png;base64, QUJD 2x"'',
          st\<lparr>fetch_calls := fetch_calls st @ [''https://ex.com/QUJD'']\<rparr>)\<close>
  by (simp add: replace_srcset_def demo_fields fetch_resource_def startswith_eval
      is_space_def strip_def truthy_def the_value_def Let_def)

lemma rerun_passes:
  "image_pass demo_env ''https://ex.com'' ''embed'' None (embedded_doc, st)
   = Inr (embedded_doc, st)"
  "srcset_pass demo_env ''https://ex.com'' ''embed'' None (embedded_doc, st)
   = Inr (reembedded_doc, st\<lparr>fetch_calls := fetch_calls st @ [''https://ex.com/QUJD'']\<rparr>)"
  "style_url_pass demo_env ''https://ex.com'' ''embed'' None (reembedded_doc, st)
   = Inr (reembedded_doc, st)"
  by (simp_all add: image_pass_def srcset_pass_def style_url_pass_def demo_fields
        embedded_doc_scans sub_fn_lits sub_fn_lits_end rerun_srcset)
     (simp add: reembedded_doc_def)

lemma first_run:
  \<open>create_standalone_html demo_env ''<img srcset="a.png 2x">'' ''https://ex.com'' ''Preview''
     False True 10 ''embed'' None
   = Inr (embedded_doc,
          \<lparr>stylesheets_inlined = 0, images_inlined = 1, fonts_inlined = 0,
           assets_downloaded = 0, total_size_before = 23, resources_failed = 0,
           source_url = ''https://ex.com'', total_size_after = Some 284, errors = [],
           fetch_calls = [''https://ex.com/a.png''], files_written = []\<rparr>)\<close>
  by (simp add: eval_simps replace_srcset_def embedded_doc_def)

lemma second_run:
  \<open>create_standalone_html demo_env embedded_doc ''https://ex.com'' ''Preview''
     False True 10 ''embed'' None
   = Inr (''<!-- Preview 2026-01-01 12:00:00 ex.com -->'' @ scroll_fix_css @ reembedded_doc,
          \<lparr>stylesheets_inlined = 0, images_inlined = 0, fonts_inlined = 0,
           assets_downloaded = 0, total_size_before = 284, resources_failed = 0,
           source_url = ''https://ex.com'', total_size_after = Some 525, errors = [],
           fetch_calls = [''https://ex.com/QUJD''], files_written = []\<rparr>)\<close>
  by (simp add: create_standalone_html_def demo_steps demo_meta bind_exn_def Let_def
      rerun_passes reembedded_doc_isin doc_lengths initial_state_def)
     (simp add: scroll_fix_css_def)

section \<open>Exceptions in the callbacks\<close>

lemma replace_image_raises:
  assumes "\<not> startswith (g3 m) ''data:''" and "urljoin env base_url (g3 m) = Inl e"
  shows "replace_image env base_url assets_mode assets_folder m st = Inl e"
  using assms by (simp add: replace_image_def)

lemma replace_style_url_raises:
  assumes "\<not> startswith (g2 m) ''data:''" and "urljoin env base_url (g2 m) = Inl e"
  shows "replace_style_url env base_url assets_mode assets_folder m st = Inl e"
  using assms by (simp add: replace_style_url_def)

lemma sub_fn_raises:
  "repl m st = Inl e \<Longrightarrow> sub_fn repl (Mat m # segs) st = Inl e"
  by simp

lemma replace_url_catches:
  assumes "urljoin env base_url (filter (\<lambda>c. c \<noteq> CHR 0x5C) (g1 m)) = Inl e"
  shows "replace_url env base_url m st = (g0 m, st)"
  using assms by (simp add: replace_url_def Let_def)

text \<open>
  C1, on the code. Only \<open>replace_url\<close>, the callback of the CSS inliner, catches what the
  evaluation of a match raises and returns the matched text. The callbacks of the passes
  of \<open>create_standalone_html\<close> have no handler: for the document \<^verbatim>\<open><img src="//[">\<close>, whose
  reference makes \<open>urljoin\<close> raise \<open>ValueError\<close>, the exception leaves \<open>replace_image\<close>,
  \<open>re.sub\<close> and the whole conversion, and no document is returned. The same reference in
  a \<open>url(...)\<close> of a stylesheet is left as it is.
\<close>

theorem malformed_reference_aborts:
  \<open>create_standalone_html demo_env ''<img src="//[">'' ''https://ex.com'' ''Preview''
     False True 10 ''embed'' None
   = Inl (Exn ''Invalid IPv6 URL'')
   \<and> replace_url demo_env ''https://ex.com''
        \<lparr>g0 = ''url(//[)'', g1 = ''//['', g2 = [], g3 = [], g4 = []\<rparr> st
      = (''url(//[)'', st)\<close>
  by (simp add: eval_simps replace_image_def replace_url_def)

section \<open>Failure accounting\<close>

lemma fetch_resource_http_error:
  assumes "REQUESTS_AVAILABLE env" and "requests_get env u = Inr r"
    and "400 \<le> status_code r" and "status_code r < 600"
  shows "fetch_resource env u st =
           ((u, None, http_error_text env u r), st\<lparr>fetch_calls := fetch_calls st @ [u]\<rparr>)"
  using assms by (simp add: fetch_resource_def Let_def)

lemma replace_image_http_error:
  assumes "REQUESTS_AVAILABLE env" and "\<not> startswith (g3 m) ''data:''"
    and "urljoin env base_url (g3 m) = Inr u" and "requests_get env u = Inr r"
    and "400 \<le> status_code r" and "status_code r < 600"
  shows "replace_image env base_url assets_mode assets_folder m st =
           Inr (g0 m, st\<lparr>fetch_calls := fetch_calls st @ [u],
                          errors := errors st @ [''Bild nicht geladen: '' @ g3 m],
                          resources_failed := resources_failed st + 1\<rparr>)"
  using assms(2,3) fetch_resource_http_error [OF assms(1,4,5,6)]
  by (simp add: replace_image_def)

lemma replace_style_url_http_error:
  assumes "REQUESTS_AVAILABLE env" and "\<not> startswith (g2 m) ''data:''"
    and "urljoin env base_url (g2 m) = Inr u" and "requests_get env u = Inr r"
    and "400 \<le> status_code r" and "status_code r < 600"
  shows "replace_style_url env base_url assets_mode assets_folder m st =
           Inr (g0 m, st\<lparr>fetch_calls := fetch_calls st @ [u]\<rparr>)"
  using assms(2,3) fetch_resource_http_error [OF assms(1,4,5,6)]
  by (simp add: replace_style_url_def)

text \<open>
  C3, on the code. A fetch answered with a 4xx or 5xx status leaves the reference as it
  is in every pass, but only the image pass and the stylesheet pass count it and record
  an error. For the document \<^verbatim>\<open><div style="background:url(bg.png)">\<close>, whose image the
  server answers with 404, the conversion returns the tag unchanged with
  \<open>resources_failed\<close> at zero and no error record, although the fetch was made.
\<close>

theorem style_failure_not_counted:
  \<open>create_standalone_html demo_env ''<div style="background:url(bg.png)">'' ''https://ex.com''
     ''Preview'' False True 10 ''embed'' None
   = Inr (''<!-- Preview 2026-01-01 12:00:00 ex.com -->'' @ scroll_fix_css
           @ ''<div style="background:url(bg.png)">'',
          \<lparr>stylesheets_inlined = 0, images_inlined = 0, fonts_inlined = 0,
           assets_downloaded = 0, total_size_before = 36, resources_failed = 0,
           source_url = ''https://ex.com'', total_size_after = Some 276, errors = [],
           fetch_calls = [''https://ex.com/bg.png''], files_written = []\<rparr>)\<close>
  by (simp add: eval_simps replace_style_url_def)

section \<open>Re-running the embed mode\<close>

text \<open>
  C5, on the code. The conversion of \<^verbatim>\<open><img srcset="a.png 2x">\<close> in \<open>embed\<close> mode embeds its
  one resource and returns \<open>embedded_doc\<close>. A second conversion of that document is not
  free of fetches: \<open>replace_srcset\<close> splits the attribute at the comma of the data URL,
  keeps the piece before it and takes the Base64 text after it for a relative URL, which
  it fetches; the server answers 404, and the attribute is put together again with a
  space after the comma.
\<close>

theorem embed_rerun_fetches:
  \<open>create_standalone_html demo_env ''<img srcset="a.png 2x">'' ''https://ex.com'' ''Preview''
     False True 10 ''embed'' None
   = Inr (embedded_doc,
          \<lparr>stylesheets_inlined = 0, images_inlined = 1, fonts_inlined = 0,
           assets_downloaded = 0, total_size_before = 23, resources_failed = 0,
           source_url = ''https://ex.com'', total_size_after = Some 284, errors = [],
           fetch_calls = [''https://ex.com/a.png''], files_written = []\<rparr>)
   \<and> create_standalone_html demo_env embedded_doc ''https://ex.com'' ''Preview''
        False True 10 ''embed'' None
      = Inr (''<!-- Preview 2026-01-01 12:00:00 ex.com -->'' @ scroll_fix_css @ reembedded_doc,
             \<lparr>stylesheets_inlined = 0, images_inlined = 0, fonts_inlined = 0,
              assets_downloaded = 0, total_size_before = 284, resources_failed = 0,
              source_url = ''https://ex.com'', total_size_after = Some 525, errors = [],
              fetch_calls = [''https://ex.com/QUJD''], files_written = []\<rparr>)\<close>
  using first_run second_run by (rule conjI)

section \<open>Candidates of a srcset\<close>

text \<open>
  C7, on the code. A candidate that is already inline does not keep its text: the loop
  splits the attribute at every comma, also at the comma inside a data URL. For the
  document \<^verbatim>\<open><img srcset="data:image/png;base64,QUJD 2x">\<close> the piece before the comma is
  kept, the piece \<open>QUJD 2x\<close> after it is fetched as a relative URL (404 here, so it is
  kept as well), and the list is joined with a comma and a space: the candidate comes
  back as \<^verbatim>\<open>data:image/png;base64, QUJD 2x\<close>.
\<close>

theorem inline_candidate_not_verbatim:
  \<open>create_standalone_html demo_env ''<img srcset="data:image/png;base64,QUJD 2x">''
     ''https://ex.com'' ''Preview'' False True 10 ''embed'' None
   = Inr (reembedded_doc,
          \<lparr>stylesheets_inlined = 0, images_inlined = 0, fonts_inlined = 0,
           assets_downloaded = 0, total_size_before = 44, resources_failed = 0,
           source_url = ''https://ex.com'', total_size_after = Some 285, errors = [],
           fetch_calls = [''https://ex.com/QUJD''], files_written = []\<rparr>)\<close>
  by (simp add: eval_simps replace_srcset_def reembedded_doc_def)

section \<open>Download mode without an asset folder\<close>

text \<open>
  C10, on the code. With \<open>assets_mode = 'download'\<close> and no asset folder every resource
  is fetched, no file is written and no counter or error record changes, but a fetched
  candidate of a srcset is not left in place: the loop appends it nowhere. For
  \<^verbatim>\<open><img srcset="a.png 1x, b.png 2x">\<close>, where \<open>a.png\<close> is fetched and \<open>b.png\<close> is answered
  with 404, the attribute comes back with the candidate \<open>b.png 2x\<close> alone.
\<close>

theorem download_without_folder_drops_candidate:
  \<open>create_standalone_html demo_env ''<img srcset="a.png 1x, b.png 2x">'' ''https://ex.com''
     ''Preview'' False True 10 ''download'' None
   = Inr (''<!-- Preview 2026-01-01 12:00:00 ex.com -->'' @ scroll_fix_css
           @ ''<img srcset="b.png 2x">'',
          \<lparr>stylesheets_inlined = 0, images_inlined = 0, fonts_inlined = 0,
           assets_downloaded = 0, total_size_before = 33, resources_failed = 0,
           source_url = ''https://ex.com'', total_size_after = Some 263, errors = [],
           fetch_calls = [''https://ex.com/a.png'', ''https://ex.com/b.png''],
           files_written = []\<rparr>)\<close>
  by (simp add: eval_simps replace_srcset_def)

end
